theory Spec2Isabelle
  imports Main "HOL-Library.Word"
begin

section \<open>JavaScript values used by the program\<close>

text \<open>
  A JavaScript string is a sequence of UTF-16 code units: \<open>length\<close> and \<open>slice\<close> count
  code units, so a string is modelled as a list of 16-bit words. The literals of the source
  are ASCII and are written with \<open>js\<close>.
\<close>

type_synonym code_unit = "16 word"
type_synonym jsstring = "code_unit list"

definition js :: "string \<Rightarrow> jsstring" where
  "js s = map (\<lambda>c. of_nat (of_char c)) s"

text \<open>
  \<open>String.prototype.trim\<close> removes the code units that ECMAScript calls WhiteSpace or
  LineTerminator from both ends.
\<close>

definition isWhiteSpace :: "code_unit \<Rightarrow> bool" where
  "isWhiteSpace c \<longleftrightarrow>
     c \<in> {0x0009, 0x000A, 0x000B, 0x000C, 0x000D, 0x0020, 0x00A0, 0x1680,
          0x2000, 0x2001, 0x2002, 0x2003, 0x2004, 0x2005, 0x2006, 0x2007,
          0x2008, 0x2009, 0x200A, 0x2028, 0x2029, 0x202F, 0x205F, 0x3000, 0xFEFF}"

definition trim :: "jsstring \<Rightarrow> jsstring" where
  "trim s = rev (dropWhile isWhiteSpace (rev (dropWhile isWhiteSpace s)))"

text \<open>A string is falsy exactly when it is empty; \<open>null\<close> and \<open>undefined\<close> are \<open>None\<close>.\<close>

definition truthy :: "jsstring option \<Rightarrow> bool" where
  "truthy v = (case v of None \<Rightarrow> False | Some s \<Rightarrow> s \<noteq> [])"

text \<open>\<open>Array.prototype.findIndex\<close>: the first index whose element satisfies the test, or -1.\<close>

fun findIndex :: "('a \<Rightarrow> bool) \<Rightarrow> 'a list \<Rightarrow> int" where
  "findIndex P [] = - 1"
| "findIndex P (x # xs) =
     (if P x then 0 else (let r = findIndex P xs in if r = - 1 then - 1 else r + 1))"

text \<open>\<open>Array.prototype.join\<close> on an array of strings.\<close>

fun join :: "jsstring \<Rightarrow> jsstring list \<Rightarrow> jsstring" where
  "join sep [] = []"
| "join sep [x] = x"
| "join sep (x # y # ys) = x @ sep @ join sep (y # ys)"

text \<open>Errors that the modelled code throws or catches.\<close>

datatype js_error =
    Error jsstring
  | TransportError
  | RemoteError
  | SyntaxError
  | QuotaExceededError

section \<open>Data model (types.ts)\<close>

record Attachment =
  att_name :: jsstring
  att_mimeType :: jsstring
  att_data :: jsstring

datatype Role = RoleUser | RoleModel

record Message =
  msg_id :: jsstring
  msg_role :: Role
  msg_content :: jsstring
  msg_attachments :: "Attachment list option"
  msg_isThinking :: "bool option"
  msg_timestamp :: int

record User =
  user_id :: jsstring
  user_username :: jsstring
  user_avatar :: "jsstring option"

record ChatSession =
  cs_id :: jsstring
  cs_userId :: jsstring
  cs_title :: jsstring
  cs_messages :: "Message list"
  cs_lastUpdated :: int

section \<open>Session store (dbService over localStorage)\<close>

text \<open>
  The value kept under \<open>LOCAL_STORAGE_KEY\<close>, seen through \<open>JSON.parse\<close>: no item, an item
  that does not parse, or a list of sessions. \<open>quotaExceeded\<close> says that \<open>setItem\<close> throws.
\<close>

datatype stored_item = NoItem | Unparsable | Sessions "ChatSession list"

record localStorage =
  stored :: stored_item
  quotaExceeded :: bool

definition readItem :: "localStorage \<Rightarrow> js_error + ChatSession list" where
  "readItem ls =
     (case stored ls of
        NoItem \<Rightarrow> Inr []
      | Unparsable \<Rightarrow> Inl SyntaxError
      | Sessions ss \<Rightarrow> Inr ss)"

definition getLocalSessions :: "localStorage \<Rightarrow> ChatSession list" where
  "getLocalSessions ls = (case readItem ls of Inl e \<Rightarrow> [] | Inr ss \<Rightarrow> ss)"

definition setItem :: "localStorage \<Rightarrow> ChatSession list \<Rightarrow> js_error + localStorage" where
  "setItem ls ss =
     (if quotaExceeded ls then Inl QuotaExceededError else Inr (ls\<lparr>stored := Sessions ss\<rparr>))"

definition saveLocalSessions :: "localStorage \<Rightarrow> ChatSession list \<Rightarrow> localStorage" where
  "saveLocalSessions ls ss = (case setItem ls ss of Inl e \<Rightarrow> ls | Inr ls' \<Rightarrow> ls')"

text \<open>
  The title expression of \<open>dbService.createSession\<close> (and, word for word, of the
  \<open>POST /api/sessions\<close> route): \<open>content.slice(0, 30) + (content.length > 30 ? '...' : '')\<close>,
  then \<open>title || 'New Chat'\<close>.
\<close>

definition deriveTitle :: "jsstring \<Rightarrow> jsstring" where
  "deriveTitle content =
     (let title = take 30 content @ (if length content > 30 then js ''...'' else js '''')
      in if title \<noteq> [] then title else js ''New Chat'')"

text \<open>
  The operations of \<open>dbService\<close> are asynchronous: each returns the storage it leaves and
  the settlement of its promise (\<open>Inl\<close> a rejection). \<open>sort\<close> is stable and the comparator
  orders by \<open>lastUpdated\<close>, descending.
\<close>

definition getSessions :: "localStorage \<Rightarrow> jsstring \<Rightarrow> js_error + ChatSession list" where
  "getSessions ls userId =
     (let sessions = getLocalSessions ls
      in Inr (sort_key (\<lambda>s. - cs_lastUpdated s) sessions))"

definition createSession ::
  "localStorage \<Rightarrow> jsstring \<Rightarrow> int \<Rightarrow> jsstring \<Rightarrow> Message \<Rightarrow> localStorage \<times> (js_error + ChatSession)"
where
  "createSession ls newId now userId firstMessage =
     (let sessions = getLocalSessions ls;
          newSession = \<lparr>cs_id = newId, cs_userId = userId,
                        cs_title = deriveTitle (msg_content firstMessage),
                        cs_messages = [firstMessage], cs_lastUpdated = now\<rparr>
      in (saveLocalSessions ls (sessions @ [newSession]), Inr newSession))"

definition updateSession ::
  "localStorage \<Rightarrow> int \<Rightarrow> jsstring \<Rightarrow> Message list \<Rightarrow> localStorage \<times> (js_error + unit)"
where
  "updateSession ls now sessionId newMessages =
     (let sessions = getLocalSessions ls;
          index = findIndex (\<lambda>s. cs_id s = sessionId) sessions
      in if index \<noteq> - 1
         then (saveLocalSessions ls
                 (sessions[nat index :=
                    (sessions ! nat index)\<lparr>cs_messages := newMessages, cs_lastUpdated := now\<rparr>]),
               Inr ())
         else (ls, Inr ()))"

definition deleteSession :: "localStorage \<Rightarrow> jsstring \<Rightarrow> localStorage \<times> (js_error + unit)" where
  "deleteSession ls sessionId =
     (let sessions = getLocalSessions ls;
          sessions' = filter (\<lambda>s. cs_id s \<noteq> sessionId) sessions
      in (saveLocalSessions ls sessions', Inr ()))"

section \<open>Prompt composition and the completion call (services/gemini.ts)\<close>

definition getModelName :: "bool \<Rightarrow> jsstring" where
  "getModelName deepThink =
     (if deepThink then js ''gemini-2.5-flash'' else js ''gemini-3-pro-preview'')"

definition BASE_INSTRUCTION :: jsstring where
  "BASE_INSTRUCTION = js
     (''\<newline>''
      @ ''You are 'Roblox Architect', a world-class Roblox Studio expert AI. \<newline>''
      @ ''Your goal is to assist developers in creating high-quality games on the Roblox platform.\<newline>''
      @ ''\<newline>''
      @ ''Attributes:\<newline>''
      @ ''1.  **Professional & Modern:** You write clean, optimized, and strictly typed Luau code. Use 'task.wait', 'OverlapParams', 'TweenService', etc.\<newline>''
      @ ''2.  **UI/UX Expert:** Suggest UDim2, AnchorPoints, and clean hierarchy. **Always include specific UDim2 values (e.g., `UDim2.new(0.5, 0, 0.5, 0)`) and AnchorPoint examples (e.g., `Vector2.new(0.5, 0.5)`) when suggesting UI layouts.**\<newline>''
      @ ''3.  **Secure:** Prioritize filtering text and securing RemoteEvents.\<newline>''
      @ ''4.  **Formatting:** Always wrap code in ```lua blocks.\<newline>'')"

definition ANALYZE_INSTRUCTION :: jsstring where
  "ANALYZE_INSTRUCTION = js
     (''\<newline>''
      @ ''[ACTIVE MODE: CODE ANALYSIS]\<newline>''
      @ ''The user wants a strict review.\<newline>''
      @ ''- **Identify Missing Types:** Point out variables/functions lacking types.\<newline>''
      @ ''- **Modularity:** Suggest splitting monoliths into ModuleScripts.\<newline>''
      @ ''- **Safety:** Flag insecure RemoteEvent usage.\<newline>''
      @ ''- **Style:** Enforce Roblox Lua Style Guide.\<newline>'')"

definition OPTIMIZE_INSTRUCTION :: jsstring where
  "OPTIMIZE_INSTRUCTION = js
     (''\<newline>''
      @ ''[ACTIVE MODE: OPTIMIZATION]\<newline>''
      @ ''The user requires HIGH PERFORMANCE code.\<newline>''
      @ ''- **Critical:** Avoid O(n^2) loops. Use dictionary lookups.\<newline>''
      @ ''- **Memory:** properly disconnect RBXScriptConnections (Janitor/Maid).\<newline>''
      @ ''- **Network:** Minimize RemoteEvent payloads.\<newline>''
      @ ''- **Threading:** Use Parallel Luau (Actors) for heavy tasks.\<newline>''
      @ ''- **Explanation:** You MUST explain specific optimization choices made.\<newline>'')"

text \<open>
  Lines 58 to 73 of \<open>sendMessageToGemini\<close>: the instruction string and the list of active
  mode names are built up by two conditional appends, then the closing sentence is added
  when the list is not empty.
\<close>

definition systemInstructionFor :: "bool \<Rightarrow> bool \<Rightarrow> jsstring" where
  "systemInstructionFor analyzeMode optimizeMode =
     (let systemInstruction = BASE_INSTRUCTION;
          activeModes = [];
          (systemInstruction, activeModes) =
            (if analyzeMode
             then (systemInstruction @ js ''\<newline>\<newline>'' @ ANALYZE_INSTRUCTION,
                   activeModes @ [js ''Analysis''])
             else (systemInstruction, activeModes));
          (systemInstruction, activeModes) =
            (if optimizeMode
             then (systemInstruction @ js ''\<newline>\<newline>'' @ OPTIMIZE_INSTRUCTION,
                   activeModes @ [js ''Optimization''])
             else (systemInstruction, activeModes))
      in if length activeModes > 0
         then systemInstruction
              @ js ''\<newline>\<newline>User has enabled the following modes: ''
              @ join (js '', '') activeModes
              @ js ''. Please adhere to ALL instructions above.''
         else systemInstruction)"

text \<open>The request handed to \<open>ai.models.generateContent\<close>.\<close>

datatype Part = Text jsstring | InlineData jsstring jsstring

record Content =
  role :: Role
  parts :: "Part list"

record ThinkingConfig =
  thinkingBudget :: int

record GenerateContentConfig =
  systemInstruction :: jsstring
  thinkingConfig :: "ThinkingConfig option"

record GenerateContentParameters =
  model :: jsstring
  contents :: "Content list"
  config :: GenerateContentConfig

definition inlineDataParts :: "Attachment list \<Rightarrow> Part list" where
  "inlineDataParts atts = map (\<lambda>att. InlineData (att_mimeType att) (att_data att)) atts"

definition generateContentParameters ::
  "Message list \<Rightarrow> jsstring \<Rightarrow> Attachment list \<Rightarrow> bool \<Rightarrow> bool \<Rightarrow> bool \<Rightarrow> GenerateContentParameters"
where
  "generateContentParameters history newMessage attachments deepThink analyzeMode optimizeMode =
     (let modelName = getModelName deepThink;
          config = \<lparr>systemInstruction = systemInstructionFor analyzeMode optimizeMode,
                    thinkingConfig = None\<rparr>;
          config = (if deepThink
                    then config\<lparr>thinkingConfig := Some \<lparr>thinkingBudget = 8192\<rparr>\<rparr>
                    else config);
          validHistory =
            map (\<lambda>msg. \<lparr>role = msg_role msg,
                         parts = Text (msg_content msg)
                                 # inlineDataParts (case msg_attachments msg of
                                                      None \<Rightarrow> [] | Some atts \<Rightarrow> atts)\<rparr>)
                history;
          currentParts = [Text newMessage] @ inlineDataParts attachments;
          contents = validHistory @ [\<lparr>role = RoleUser, parts = currentParts\<rparr>]
      in \<lparr>model = modelName, contents = contents, config = config\<rparr>)"

text \<open>
  \<open>apiKey\<close> is \<open>process.env.API_KEY\<close>; \<open>generateContent\<close> stands for the remote call, which
  either throws or returns a response whose \<open>text\<close> may be undefined. The \<open>catch\<close> block
  logs and rethrows.
\<close>

definition sendMessageToGemini ::
  "jsstring option \<Rightarrow> (GenerateContentParameters \<Rightarrow> js_error + jsstring option) \<Rightarrow>
   Message list \<Rightarrow> jsstring \<Rightarrow> Attachment list \<Rightarrow> bool \<Rightarrow> bool \<Rightarrow> bool \<Rightarrow> js_error + jsstring"
where
  "sendMessageToGemini apiKey generateContent history newMessage attachments
       deepThink analyzeMode optimizeMode =
     (if \<not> truthy apiKey
      then Inl (Error (js ''API_KEY not found in environment variables''))
      else (case generateContent
                   (generateContentParameters history newMessage attachments
                      deepThink analyzeMode optimizeMode) of
              Inl error \<Rightarrow> Inl error
            | Inr text \<Rightarrow>
                Inr (if truthy text then the text else js ''No response generated.'')))"

section \<open>The conversation component (App.tsx)\<close>

text \<open>
  The state of the component is the tuple of its \<open>useState\<close> cells. A handler is a function
  from the state its closure sees to the state after its \<open>set...\<close> calls. The values that
  \<open>generateId\<close> and \<open>Date.now\<close> return are inputs of the model. Only the \<open>await\<close> of the
  completion call splits a handler in two parts; the awaits on the local storage service
  are taken together with the code around them.
\<close>

record AppState =
  currentUser :: "User option"
  sessions :: "ChatSession list"
  currentSessionId :: "jsstring option"
  messages :: "Message list"
  input :: jsstring
  isLoading :: bool
  deepThink :: bool
  analyzeMode :: bool
  optimizeMode :: bool
  attachments :: "Attachment list"
  sidebarOpen :: bool
  showSettings :: bool
  editingMessageId :: "jsstring option"
  editContent :: jsstring

text \<open>The arguments with which a handler calls \<open>sendMessageToGemini\<close>.\<close>

record GeminiCall =
  call_history :: "Message list"
  call_newMessage :: jsstring
  call_attachments :: "Attachment list"
  call_deepThink :: bool
  call_analyzeMode :: bool
  call_optimizeMode :: bool

definition runCall ::
  "jsstring option \<Rightarrow> (GenerateContentParameters \<Rightarrow> js_error + jsstring option) \<Rightarrow>
   GeminiCall \<Rightarrow> js_error + jsstring"
where
  "runCall apiKey generateContent call =
     sendMessageToGemini apiKey generateContent (call_history call) (call_newMessage call)
       (call_attachments call) (call_deepThink call) (call_analyzeMode call)
       (call_optimizeMode call)"

text \<open>The effect that persists the current session (lines 56 to 60).\<close>

definition persistEffect :: "int \<Rightarrow> AppState \<Rightarrow> localStorage \<Rightarrow> localStorage" where
  "persistEffect now s ls =
     (if currentUser s \<noteq> None \<and> truthy (currentSessionId s) \<and> length (messages s) > 0
      then fst (updateSession ls now (the (currentSessionId s)) (messages s))
      else ls)"

definition startNewChat :: "int \<Rightarrow> AppState \<Rightarrow> AppState" where
  "startNewChat innerWidth s =
     (let s = s\<lparr>messages := []\<rparr>;
          s = s\<lparr>currentSessionId := None\<rparr>
      in if innerWidth < 768 then s\<lparr>sidebarOpen := False\<rparr> else s)"


text \<open>
  What the message list renders for a message (lines 518 to 593): the edit box with its
  save button when the message is the one being edited, and otherwise the edit button,
  for a user message while nothing is loading.
\<close>

definition saveButtonShown :: "AppState \<Rightarrow> Message \<Rightarrow> bool" where
  "saveButtonShown s msg \<longleftrightarrow> editingMessageId s = Some (msg_id msg)"

definition editButtonShown :: "AppState \<Rightarrow> Message \<Rightarrow> bool" where
  "editButtonShown s msg \<longleftrightarrow>
     editingMessageId s \<noteq> Some (msg_id msg) \<and> msg_role msg = RoleUser \<and> \<not> isLoading s"

definition handleEditClick :: "Message \<Rightarrow> AppState \<Rightarrow> AppState" where
  "handleEditClick msg s = s\<lparr>editingMessageId := Some (msg_id msg), editContent := msg_content msg\<rparr>"


text \<open>
  \<open>handleEditSave\<close> up to its \<open>await\<close>: the guards, the truncation and the arguments of the
  completion call. \<open>None\<close> in the second component is an early \<open>return\<close>.
\<close>

definition handleEditSave_begin :: "AppState \<Rightarrow> AppState \<times> GeminiCall option" where
  "handleEditSave_begin s =
     (if \<not> truthy (editingMessageId s) \<or> trim (editContent s) = [] then (s, None)
      else
        let msgIndex = findIndex (\<lambda>m. msg_id m = the (editingMessageId s)) (messages s)
        in if msgIndex = - 1 then (s, None)
           else
             let originalMsg = messages s ! nat msgIndex;
                 updatedMsg = originalMsg\<lparr>msg_content := editContent s\<rparr>;
                 newHistory = take (nat (msgIndex + 1)) (messages s);
                 newHistory = newHistory[nat msgIndex := updatedMsg];
                 s' = s\<lparr>messages := newHistory, editingMessageId := None, isLoading := True\<rparr>;
                 apiHistory = filter (\<lambda>m. msg_id m \<noteq> js ''welcome'') (butlast newHistory)
             in (s', Some \<lparr>call_history = apiHistory,
                           call_newMessage = msg_content updatedMsg,
                           call_attachments =
                             (case msg_attachments updatedMsg of None \<Rightarrow> [] | Some atts \<Rightarrow> atts),
                           call_deepThink = deepThink s,
                           call_analyzeMode = analyzeMode s,
                           call_optimizeMode = optimizeMode s\<rparr>))"

text \<open>
  The rest of a handler runs when the completion call settles: \<open>setMessages\<close> with a
  functional update appends to the messages of the state at that moment, then \<open>finally\<close>
  clears \<open>isLoading\<close>.
\<close>

record ReplyEnv =
  replyId :: jsstring
  replyTime :: int

definition handleEditSave_settle :: "ReplyEnv \<Rightarrow> js_error + jsstring \<Rightarrow> AppState \<Rightarrow> AppState" where
  "handleEditSave_settle env result s =
     (let s =
        (case result of
           Inr responseText \<Rightarrow>
             (let botMessage = \<lparr>msg_id = replyId env, msg_role = RoleModel,
                                msg_content = responseText, msg_attachments = None,
                                msg_isThinking = None, msg_timestamp = replyTime env\<rparr>
              in s\<lparr>messages := messages s @ [botMessage]\<rparr>)
         | Inl error \<Rightarrow>
             (let errorMessage = \<lparr>msg_id = replyId env, msg_role = RoleModel,
                                  msg_content = js ''Error regenerating response after edit.'',
                                  msg_attachments = None, msg_isThinking = None,
                                  msg_timestamp = replyTime env\<rparr>
              in s\<lparr>messages := messages s @ [errorMessage]\<rparr>))
      in s\<lparr>isLoading := False\<rparr>)"

definition handleEditSave ::
  "jsstring option \<Rightarrow> (GenerateContentParameters \<Rightarrow> js_error + jsstring option) \<Rightarrow>
   ReplyEnv \<Rightarrow> AppState \<Rightarrow> AppState"
where
  "handleEditSave apiKey generateContent env s =
     (case handleEditSave_begin s of
        (s', None) \<Rightarrow> s'
      | (s', Some call) \<Rightarrow> handleEditSave_settle env (runCall apiKey generateContent call) s')"

text \<open>\<open>handleSend\<close> up to the \<open>await\<close> of the completion call.\<close>

record SendEnv =
  userMessageId :: jsstring
  userMessageTime :: int
  tempMsgTime :: int
  newSessionId :: jsstring
  newSessionTime :: int

definition handleSend_begin ::
  "SendEnv \<Rightarrow> jsstring option \<Rightarrow> AppState \<Rightarrow> localStorage \<Rightarrow>
   AppState \<times> localStorage \<times> GeminiCall option"
where
  "handleSend_begin env manualInput s ls =
     (let textToSend = (case manualInput of Some text \<Rightarrow> text | None \<Rightarrow> input s)
      in if (trim textToSend = [] \<and> length (attachments s) = 0) \<or> isLoading s
         then (s, ls, None)
         else
           let userMessage = \<lparr>msg_id = userMessageId env, msg_role = RoleUser,
                              msg_content = textToSend,
                              msg_attachments = Some (attachments s),
                              msg_isThinking = None, msg_timestamp = userMessageTime env\<rparr>;
               s1 = s\<lparr>messages := messages s @ [userMessage]\<rparr>;
               s1 = (if \<not> truthy manualInput then s1\<lparr>input := []\<rparr> else s1);
               s1 = s1\<lparr>attachments := []\<rparr>;
               s1 = s1\<lparr>isLoading := True\<rparr>;
               (s1, ls) =
                 (if \<not> truthy (currentSessionId s) \<and> currentUser s \<noteq> None
                  then
                    let tempMsg = \<lparr>msg_id = js ''temp'', msg_role = RoleUser,
                                   msg_content = textToSend, msg_attachments = None,
                                   msg_isThinking = None, msg_timestamp = tempMsgTime env\<rparr>
                    in (case createSession ls (newSessionId env) (newSessionTime env)
                               (user_id (the (currentUser s))) tempMsg of
                          (ls, Inl err) \<Rightarrow> (s1, ls)
                        | (ls, Inr newSession) \<Rightarrow>
                            (let s1 = s1\<lparr>currentSessionId := Some (cs_id newSession)\<rparr>
                             in case getSessions ls (user_id (the (currentUser s))) of
                                  Inl err \<Rightarrow> (s1, ls)
                                | Inr updatedSessions \<Rightarrow>
                                    (s1\<lparr>sessions := updatedSessions\<rparr>, ls)))
                  else (s1, ls));
               history = filter (\<lambda>m. msg_id m \<noteq> js ''welcome'') (messages s)
           in (s1, ls, Some \<lparr>call_history = history,
                             call_newMessage = msg_content userMessage,
                             call_attachments =
                               (case msg_attachments userMessage of
                                  None \<Rightarrow> [] | Some atts \<Rightarrow> atts),
                             call_deepThink = deepThink s,
                             call_analyzeMode = analyzeMode s,
                             call_optimizeMode = optimizeMode s\<rparr>))"

definition handleSend_settle :: "ReplyEnv \<Rightarrow> js_error + jsstring \<Rightarrow> AppState \<Rightarrow> AppState" where
  "handleSend_settle env result s =
     (let s =
        (case result of
           Inr responseText \<Rightarrow>
             (let botMessage = \<lparr>msg_id = replyId env, msg_role = RoleModel,
                                msg_content = responseText, msg_attachments = None,
                                msg_isThinking = None, msg_timestamp = replyTime env\<rparr>
              in s\<lparr>messages := messages s @ [botMessage]\<rparr>)
         | Inl error \<Rightarrow>
             (let errorMessage = \<lparr>msg_id = replyId env, msg_role = RoleModel,
                                  msg_content =
                                    js ''I encountered a system error. Please check your API key.'',
                                  msg_attachments = None, msg_isThinking = None,
                                  msg_timestamp = replyTime env\<rparr>
              in s\<lparr>messages := messages s @ [errorMessage]\<rparr>))
      in s\<lparr>isLoading := False\<rparr>)"

definition handleSend ::
  "jsstring option \<Rightarrow> (GenerateContentParameters \<Rightarrow> js_error + jsstring option) \<Rightarrow>
   SendEnv \<Rightarrow> ReplyEnv \<Rightarrow> jsstring option \<Rightarrow> AppState \<Rightarrow> localStorage \<Rightarrow>
   AppState \<times> localStorage"
where
  "handleSend apiKey generateContent env renv manualInput s ls =
     (case handleSend_begin env manualInput s ls of
        (s', ls', None) \<Rightarrow> (s', ls')
      | (s', ls', Some call) \<Rightarrow>
          (handleSend_settle renv (runCall apiKey generateContent call) s', ls'))"

text \<open>The edit box writes what is typed into \<open>editContent\<close> (\<open>onChange\<close>, line 523).\<close>

definition setEditContent :: "jsstring \<Rightarrow> AppState \<Rightarrow> AppState" where
  "setEditContent text s = s\<lparr>editContent := text\<rparr>"

text \<open>The \<open>errorMessage\<close> objects of the two \<open>catch\<close> blocks (lines 273 and 203).\<close>

definition sendErrorMessage :: "ReplyEnv \<Rightarrow> Message" where
  "sendErrorMessage env = \<lparr>msg_id = replyId env, msg_role = RoleModel,
     msg_content = js ''I encountered a system error. Please check your API key.'',
     msg_attachments = None, msg_isThinking = None, msg_timestamp = replyTime env\<rparr>"

definition editErrorMessage :: "ReplyEnv \<Rightarrow> Message" where
  "editErrorMessage env = \<lparr>msg_id = replyId env, msg_role = RoleModel,
     msg_content = js ''Error regenerating response after edit.'',
     msg_attachments = None, msg_isThinking = None, msg_timestamp = replyTime env\<rparr>"

text \<open>The input box writes what is typed into \<open>input\<close> (\<open>onChange\<close>, line 707).\<close>

definition setInput :: "jsstring \<Rightarrow> AppState \<Rightarrow> AppState" where
  "setInput newInput s = s\<lparr>input := newInput\<rparr>"

text \<open>
  The values \<open>textToSend\<close> (line 218), \<open>userMessage\<close> (lines 223 to 229) and \<open>tempMsg\<close>
  (line 239) that \<open>handleSend\<close> computes.
\<close>

definition textToSend :: "jsstring option \<Rightarrow> AppState \<Rightarrow> jsstring" where
  "textToSend manualInput s = (case manualInput of Some manual \<Rightarrow> manual | None \<Rightarrow> input s)"

definition userMessage :: "SendEnv \<Rightarrow> jsstring option \<Rightarrow> AppState \<Rightarrow> Message" where
  "userMessage env manualInput s =
     \<lparr>msg_id = userMessageId env, msg_role = RoleUser, msg_content = textToSend manualInput s,
      msg_attachments = Some (attachments s), msg_isThinking = None,
      msg_timestamp = userMessageTime env\<rparr>"

definition tempMsg :: "SendEnv \<Rightarrow> jsstring option \<Rightarrow> AppState \<Rightarrow> Message" where
  "tempMsg env manualInput s =
     \<lparr>msg_id = js ''temp'', msg_role = RoleUser, msg_content = textToSend manualInput s,
      msg_attachments = None, msg_isThinking = None, msg_timestamp = tempMsgTime env\<rparr>"

text \<open>
  The edit button of a message exists when the message is rendered, that is when it is in
  the sequence (\<open>messages.map\<close>, line 502), and the condition of line 583 holds; its
  \<open>onClick\<close> is \<open>handleEditClick(msg)\<close>. \<open>None\<close> says that there is no such button.
\<close>

definition clickEditButton :: "Message \<Rightarrow> AppState \<Rightarrow> AppState option" where
  "clickEditButton msg s =
     (if msg \<in> set (messages s) \<and> editButtonShown s msg then Some (handleEditClick msg s) else None)"


section \<open>An example conversation\<close>

text \<open>
  The guest user that \<open>authService.getCurrentUser\<close> returns, a stored session of two
  round trips, and the states reached from it by the handlers. The theorems below are
  evaluated on them.
\<close>

definition getCurrentUser :: "User option" where
  "getCurrentUser = Some \<lparr>user_id = js ''guest_dev'', user_username = js ''Developer'',
     user_avatar = Some (js ''https://api.dicebear.com/7.x/shapes/svg?seed=RobloxDev'')\<rparr>"

definition exU1 :: Message where
  "exU1 = \<lparr>msg_id = js ''u1'', msg_role = RoleUser, msg_content = js ''How do I tween a part?'',
     msg_attachments = Some [], msg_isThinking = None, msg_timestamp = 1000\<rparr>"

definition exM1 :: Message where
  "exM1 = \<lparr>msg_id = js ''m1'', msg_role = RoleModel, msg_content = js ''Use TweenService.'',
     msg_attachments = None, msg_isThinking = None, msg_timestamp = 2000\<rparr>"

definition exU2 :: Message where
  "exU2 = \<lparr>msg_id = js ''u2'', msg_role = RoleUser, msg_content = js ''Show the code.'',
     msg_attachments = Some [], msg_isThinking = None, msg_timestamp = 3000\<rparr>"

definition exM2 :: Message where
  "exM2 = \<lparr>msg_id = js ''m2'', msg_role = RoleModel, msg_content = js ''Here it is.'',
     msg_attachments = None, msg_isThinking = None, msg_timestamp = 4000\<rparr>"

definition exampleSession :: ChatSession where
  "exampleSession = \<lparr>cs_id = js ''s1'', cs_userId = js ''guest_dev'',
     cs_title = js ''How do I tween a part?'', cs_messages = [exU1, exM1, exU2, exM2],
     cs_lastUpdated = 4000\<rparr>"

definition exampleStorage :: localStorage where
  "exampleStorage = \<lparr>stored = Sessions [exampleSession], quotaExceeded = False\<rparr>"

definition exampleState :: AppState where
  "exampleState = \<lparr>currentUser = getCurrentUser, sessions = [exampleSession],
     currentSessionId = Some (js ''s1''), messages = [exU1, exM1, exU2, exM2], input = [],
     isLoading = False, deepThink = False, analyzeMode = False, optimizeMode = False,
     attachments = [], sidebarOpen = True, showSettings = False, editingMessageId = None,
     editContent = []\<rparr>"

definition exampleSendEnv :: SendEnv where
  "exampleSendEnv = \<lparr>userMessageId = js ''u3'', userMessageTime = 5000, tempMsgTime = 5001,
     newSessionId = js ''s2'', newSessionTime = 5002\<rparr>"

definition exampleReplyEnv :: ReplyEnv where
  "exampleReplyEnv = \<lparr>replyId = js ''m3'', replyTime = 6000\<rparr>"

definition transportFails :: "GenerateContentParameters \<Rightarrow> js_error + jsstring option" where
  "transportFails request = Inl TransportError"

definition editingU2 :: AppState where
  "editingU2 = setEditContent (js ''new text'') (handleEditClick exU2 exampleState)"

definition freshChat :: AppState where
  "freshChat = startNewChat 1024 exampleState"

definition typedHi :: AppState where
  "typedHi = setInput (js ''hi'') freshChat"

definition answers :: "GenerateContentParameters \<Rightarrow> js_error + jsstring option" where
  "answers request = Inr (Some (js ''ok''))"

definition exampleSendEnv2 :: SendEnv where
  "exampleSendEnv2 = \<lparr>userMessageId = js ''u4'', userMessageTime = 7000, tempMsgTime = 7001,
     newSessionId = js ''s3'', newSessionTime = 7002\<rparr>"

definition exampleReplyEnv2 :: ReplyEnv where
  "exampleReplyEnv2 = \<lparr>replyId = js ''m4'', replyTime = 8000\<rparr>"

definition exU3 :: Message where
  "exU3 = userMessage exampleSendEnv (Some (js ''hello'')) exampleState"

definition afterFailure :: AppState where
  "afterFailure = fst (handleSend None transportFails exampleSendEnv exampleReplyEnv
     (Some (js ''hello'')) exampleState exampleStorage)"

definition editingAfterFailure :: AppState where
  "editingAfterFailure = setEditContent (js ''new text'') (handleEditClick exU2 afterFailure)"

definition exU4 :: Message where
  "exU4 = userMessage exampleSendEnv2 (Some (js ''again'')) afterFailure"

definition afterRetry :: AppState where
  "afterRetry = fst (handleSend (Some (js ''key'')) answers exampleSendEnv2 exampleReplyEnv2
     (Some (js ''again'')) afterFailure exampleStorage)"

definition editingU4 :: AppState where
  "editingU4 = setEditContent (js ''new text'') (handleEditClick exU4 afterRetry)"

definition afterEditFailure :: AppState where
  "afterEditFailure = handleEditSave None transportFails exampleReplyEnv editingU2"

section \<open>Facts about the JavaScript primitives\<close>

lemma findIndex_ge: "- 1 \<le> findIndex P xs"
  by (induction xs) (auto simp: Let_def)

lemma findIndex_none: "findIndex P xs = - 1 \<longleftrightarrow> (\<forall>x \<in> set xs. \<not> P x)"
proof (induction xs)
  case Nil
  show ?case by simp
next
  case (Cons x xs)
  have "findIndex P xs + 1 \<noteq> - 1"
    using findIndex_ge [of P xs] by arith
  with Cons show ?case by (auto simp: Let_def)
qed

lemma findIndex_found:
  "findIndex P xs \<noteq> - 1 \<Longrightarrow>
     0 \<le> findIndex P xs \<and> nat (findIndex P xs) < length xs \<and> P (xs ! nat (findIndex P xs))"
proof (induction xs)
  case Nil
  then show ?case by simp
next
  case (Cons x xs)
  show ?case
  proof (cases "P x")
    case True
    then show ?thesis by simp
  next
    case False
    with Cons.prems have r: "findIndex P xs \<noteq> - 1"
      by (auto simp: Let_def split: if_splits)
    from Cons.IH [OF r] have ih: "0 \<le> findIndex P xs" "nat (findIndex P xs) < length xs"
      "P (xs ! nat (findIndex P xs))" by auto
    have "nat (findIndex P xs + 1) = Suc (nat (findIndex P xs))"
      using ih(1) by arith
    with False r ih show ?thesis by (simp add: Let_def)
  qed
qed

lemma findIndex_first:
  "j < nat (findIndex P xs) \<Longrightarrow> \<not> P (xs ! j)"
proof (induction xs arbitrary: j)
  case Nil
  then show ?case by simp
next
  case (Cons x xs)
  show ?case
  proof (cases "P x")
    case True
    with Cons.prems show ?thesis by simp
  next
    case False
    show ?thesis
    proof (cases j)
      case 0
      with False show ?thesis by simp
    next
      case (Suc k)
      from Cons.prems False have r: "findIndex P xs \<noteq> - 1"
        by (auto simp: Let_def split: if_splits)
      have "0 \<le> findIndex P xs" using findIndex_found [OF r] by simp
      then have "nat (findIndex P xs + 1) = Suc (nat (findIndex P xs))" by arith
      with Cons.prems False r Suc have "k < nat (findIndex P xs)"
        by (simp add: Let_def)
      from Cons.IH [OF this] Suc show ?thesis by simp
    qed
  qed
qed

lemma trim_empty_iff: "trim s = [] \<longleftrightarrow> list_all isWhiteSpace s"
proof
  assume "trim s = []"
  then have "dropWhile isWhiteSpace (rev (dropWhile isWhiteSpace s)) = []"
    by (simp add: trim_def)
  then have "\<forall>c \<in> set (dropWhile isWhiteSpace s). isWhiteSpace c"
    by simp
  then have "dropWhile isWhiteSpace s = []"
    using hd_dropWhile [of isWhiteSpace s] hd_in_set [of "dropWhile isWhiteSpace s"] by blast
  then show "list_all isWhiteSpace s"
    by (simp add: list_all_iff)
next
  assume "list_all isWhiteSpace s"
  then have d: "dropWhile isWhiteSpace s = []"
    by (simp add: list_all_iff)
  show "trim s = []" unfolding trim_def d by simp
qed

lemma js_Nil: "js [] = []"
  by (simp add: js_def)

lemma length_js: "length (js s) = length s"
  by (simp add: js_def)

section \<open>Session title\<close>

text \<open>
  C9. The title derived at session creation is the first 30 code units of the content,
  followed by the marker \<open>...\<close> exactly when the content has more than 30 code units;
  empty content gives the default title \<open>New Chat\<close>. \<open>createSession\<close> stores that title.
\<close>

theorem C9_title_derivation:
  "deriveTitle [] = js ''New Chat''
   \<and> (content \<noteq> [] \<and> length content \<le> 30 \<longrightarrow> deriveTitle content = content)
   \<and> (length content > 30 \<longrightarrow> deriveTitle content = take 30 content @ js ''...'')
   \<and> cs_title (projr (snd (createSession ls newId now userId firstMessage)))
       = deriveTitle (msg_content firstMessage)"
  by (auto simp: deriveTitle_def createSession_def Let_def js_Nil)

theorem C9_title_derivation_witness:
  "deriveTitle (js ''Hello'') = js ''Hello''
   \<and> deriveTitle (js ''How do I tween a part in Roblox Studio?'')
       = js ''How do I tween a part in Roblo...''"
proof -
  have short: "js ''Hello'' \<noteq> [] \<and> length (js ''Hello'') \<le> 30"
    by (simp add: js_def)
  have long: "length (js ''How do I tween a part in Roblox Studio?'') > 30"
    by (simp add: js_def)
  have "deriveTitle (js ''Hello'') = js ''Hello''"
    using C9_title_derivation [of "js ''Hello''"] short by blast
  moreover have "deriveTitle (js ''How do I tween a part in Roblox Studio?'')
      = take 30 (js ''How do I tween a part in Roblox Studio?'') @ js ''...''"
    using C9_title_derivation [of "js ''How do I tween a part in Roblox Studio?''"] long by blast
  ultimately show ?thesis by (simp add: js_def)
qed

section \<open>Session store: update\<close>

lemma getLocalSessions_save:
  "getLocalSessions (saveLocalSessions ls ss) = (if quotaExceeded ls then getLocalSessions ls else ss)"
  by (simp add: getLocalSessions_def saveLocalSessions_def setItem_def readItem_def)

text \<open>
  C10. \<open>updateSession\<close> leaves every stored session whose id differs from \<open>sessionId\<close> as it
  was, at its position; when no stored session has that id, the storage is unchanged and
  the promise resolves (no rejection reaches the caller).
\<close>

theorem C10_updateSession_other_sessions:
  "length (getLocalSessions (fst (updateSession ls now sessionId newMessages)))
     = length (getLocalSessions ls)
   \<and> (\<forall>j < length (getLocalSessions ls).
        cs_id (getLocalSessions ls ! j) \<noteq> sessionId \<longrightarrow>
        getLocalSessions (fst (updateSession ls now sessionId newMessages)) ! j
          = getLocalSessions ls ! j)
   \<and> ((\<forall>s \<in> set (getLocalSessions ls). cs_id s \<noteq> sessionId) \<longrightarrow>
        updateSession ls now sessionId newMessages = (ls, Inr ()))"
proof (cases "findIndex (\<lambda>s. cs_id s = sessionId) (getLocalSessions ls) = - 1")
  case True
  then show ?thesis by (simp add: updateSession_def Let_def)
next
  case False
  let ?ss = "getLocalSessions ls"
  let ?i = "nat (findIndex (\<lambda>s. cs_id s = sessionId) ?ss)"
  from findIndex_found [OF False] have hit: "cs_id (?ss ! ?i) = sessionId" and "?i < length ?ss"
    by auto
  have missing: "\<not> (\<forall>s \<in> set ?ss. cs_id s \<noteq> sessionId)"
    using False by (simp add: findIndex_none)
  have upd: "getLocalSessions (fst (updateSession ls now sessionId newMessages))
      = (if quotaExceeded ls then ?ss
         else ?ss[?i := (?ss ! ?i)\<lparr>cs_messages := newMessages, cs_lastUpdated := now\<rparr>])"
    using False by (simp add: updateSession_def Let_def getLocalSessions_save)
  have len: "length (getLocalSessions (fst (updateSession ls now sessionId newMessages)))
      = length ?ss"
    by (simp add: upd)
  have other: "getLocalSessions (fst (updateSession ls now sessionId newMessages)) ! j = ?ss ! j"
    if "cs_id (?ss ! j) \<noteq> sessionId" for j
  proof -
    from that hit have "j \<noteq> ?i" by auto
    then show ?thesis by (simp add: upd)
  qed
  from len other missing show ?thesis by blast
qed

theorem C10_updateSession_other_sessions_witness:
  "getLocalSessions (fst (updateSession
      \<lparr>stored = Sessions
         [\<lparr>cs_id = js ''a'', cs_userId = js ''guest_dev'', cs_title = js ''A'',
           cs_messages = [], cs_lastUpdated = 1\<rparr>,
          \<lparr>cs_id = js ''b'', cs_userId = js ''guest_dev'', cs_title = js ''B'',
           cs_messages = [], cs_lastUpdated = 2\<rparr>],
        quotaExceeded = False\<rparr> 9 (js ''b'') [])) ! 0
     = \<lparr>cs_id = js ''a'', cs_userId = js ''guest_dev'', cs_title = js ''A'',
        cs_messages = [], cs_lastUpdated = 1\<rparr>
   \<and> updateSession
      \<lparr>stored = Sessions
         [\<lparr>cs_id = js ''a'', cs_userId = js ''guest_dev'', cs_title = js ''A'',
           cs_messages = [], cs_lastUpdated = 1\<rparr>],
        quotaExceeded = False\<rparr> 9 (js ''zz'') []
     = (\<lparr>stored = Sessions
         [\<lparr>cs_id = js ''a'', cs_userId = js ''guest_dev'', cs_title = js ''A'',
           cs_messages = [], cs_lastUpdated = 1\<rparr>],
        quotaExceeded = False\<rparr>, Inr ())"
proof -
  let ?a = "\<lparr>cs_id = js ''a'', cs_userId = js ''guest_dev'', cs_title = js ''A'',
             cs_messages = [], cs_lastUpdated = 1\<rparr>"
  let ?b = "\<lparr>cs_id = js ''b'', cs_userId = js ''guest_dev'', cs_title = js ''B'',
             cs_messages = [], cs_lastUpdated = 2\<rparr>"
  let ?two = "\<lparr>stored = Sessions [?a, ?b], quotaExceeded = False\<rparr>"
  let ?one = "\<lparr>stored = Sessions [?a], quotaExceeded = False\<rparr>"
  have two: "getLocalSessions ?two = [?a, ?b]" and one: "getLocalSessions ?one = [?a]"
    by (simp_all add: getLocalSessions_def readItem_def)
  have differs: "cs_id ?a \<noteq> js ''b''" "cs_id ?a \<noteq> js ''zz''"
    by (simp_all add: js_def)
  have "getLocalSessions (fst (updateSession ?two 9 (js ''b'') [])) ! 0 = ?a"
    using C10_updateSession_other_sessions [of ?two 9 "js ''b''" "[]"] two differs(1)
    by auto
  moreover have "updateSession ?one 9 (js ''zz'') [] = (?one, Inr ())"
    using C10_updateSession_other_sessions [of ?one 9 "js ''zz''" "[]"] one differs(2)
    by auto
  ultimately show ?thesis by blast
qed

section \<open>Prompt composition\<close>

lemma js_append: "js (a @ b) = js a @ js b"
  by (simp add: js_def)

text \<open>
  C4. For each of the four combinations of \<open>analyzeMode\<close> and \<open>optimizeMode\<close> the system
  instruction is the base instruction, then the analysis block if \<open>analyzeMode\<close>, then the
  optimization block if \<open>optimizeMode\<close> (each after a blank line), and, exactly when one of
  them is on, a closing sentence that lists the active modes in that order and asks to
  follow all instructions. The instruction placed in the request is this string, whatever
  the history, the new message, the attachments and \<open>deepThink\<close> are.
\<close>

theorem C4_system_instruction:
  "systemInstructionFor False False = BASE_INSTRUCTION
   \<and> systemInstructionFor True False =
       BASE_INSTRUCTION @ js ''\<newline>\<newline>'' @ ANALYZE_INSTRUCTION
       @ js ''\<newline>\<newline>User has enabled the following modes: '' @ js ''Analysis''
       @ js ''. Please adhere to ALL instructions above.''
   \<and> systemInstructionFor False True =
       BASE_INSTRUCTION @ js ''\<newline>\<newline>'' @ OPTIMIZE_INSTRUCTION
       @ js ''\<newline>\<newline>User has enabled the following modes: '' @ js ''Optimization''
       @ js ''. Please adhere to ALL instructions above.''
   \<and> systemInstructionFor True True =
       BASE_INSTRUCTION @ js ''\<newline>\<newline>'' @ ANALYZE_INSTRUCTION
       @ js ''\<newline>\<newline>'' @ OPTIMIZE_INSTRUCTION
       @ js ''\<newline>\<newline>User has enabled the following modes: ''
       @ js ''Analysis, Optimization''
       @ js ''. Please adhere to ALL instructions above.''
   \<and> systemInstruction (config (generateContentParameters history newMessage atts
         think analyze optimize))
       = systemInstructionFor analyze optimize"
proof -
  have names: "js ''Analysis'' @ js '', '' @ js ''Optimization'' = js ''Analysis, Optimization''"
    by (simp add: js_append [symmetric])
  have none: "systemInstructionFor False False = BASE_INSTRUCTION"
    by (simp add: systemInstructionFor_def)
  have analysis: "systemInstructionFor True False =
       BASE_INSTRUCTION @ js ''\<newline>\<newline>'' @ ANALYZE_INSTRUCTION
       @ js ''\<newline>\<newline>User has enabled the following modes: '' @ js ''Analysis''
       @ js ''. Please adhere to ALL instructions above.''"
    by (simp add: systemInstructionFor_def)
  have optimization: "systemInstructionFor False True =
       BASE_INSTRUCTION @ js ''\<newline>\<newline>'' @ OPTIMIZE_INSTRUCTION
       @ js ''\<newline>\<newline>User has enabled the following modes: '' @ js ''Optimization''
       @ js ''. Please adhere to ALL instructions above.''"
    by (simp add: systemInstructionFor_def)
  have both: "systemInstructionFor True True =
       BASE_INSTRUCTION @ js ''\<newline>\<newline>'' @ ANALYZE_INSTRUCTION
       @ js ''\<newline>\<newline>'' @ OPTIMIZE_INSTRUCTION
       @ js ''\<newline>\<newline>User has enabled the following modes: ''
       @ js ''Analysis, Optimization''
       @ js ''. Please adhere to ALL instructions above.''"
    unfolding names [symmetric] by (simp add: systemInstructionFor_def)
  have placed: "systemInstruction (config (generateContentParameters history newMessage
         atts think analyze optimize))
       = systemInstructionFor analyze optimize"
    by (simp add: generateContentParameters_def Let_def)
  from none analysis optimization both placed show ?thesis by blast
qed

text \<open>
  C5. The model of the request is \<open>getModelName deepThink\<close>: the deep-reasoning variant
  when \<open>deepThink\<close> is true and the default variant otherwise, two different names, whatever
  the other two modes are. The request has a thinking configuration, with budget 8192,
  when \<open>deepThink\<close> is true, and has none when it is false.
\<close>

theorem C5_model_and_thinking_budget:
  "model (generateContentParameters history newMessage atts
            think analyze optimize) = getModelName think
   \<and> getModelName True = js ''gemini-2.5-flash''
   \<and> getModelName False = js ''gemini-3-pro-preview''
   \<and> getModelName True \<noteq> getModelName False
   \<and> thinkingConfig (config (generateContentParameters history newMessage atts
         think analyze optimize))
       = (if think then Some \<lparr>thinkingBudget = 8192\<rparr> else None)"
proof -
  have "getModelName True \<noteq> getModelName False"
    by (simp add: getModelName_def js_def)
  then show ?thesis
    by (simp add: generateContentParameters_def getModelName_def Let_def)
qed

section \<open>Editing a message\<close>

lemma take_Suc_update: "i < length xs \<Longrightarrow> (take (Suc i) xs)[i := v] = take i xs @ [v]"
  by (simp add: take_Suc_conv_app_nth list_update_append)

lemma handleEditSave_begin_accept:
  assumes "truthy (editingMessageId s)" and "trim (editContent s) \<noteq> []"
    and "findIndex (\<lambda>m. msg_id m = the (editingMessageId s)) (messages s) = int i"
  shows "i < length (messages s)"
    and "fst (handleEditSave_begin s) =
      s\<lparr>messages := take i (messages s) @ [(messages s ! i)\<lparr>msg_content := editContent s\<rparr>],
        editingMessageId := None, isLoading := True\<rparr>"
    and "snd (handleEditSave_begin s) \<noteq> None"
proof -
  have ne: "findIndex (\<lambda>m. msg_id m = the (editingMessageId s)) (messages s) \<noteq> - 1"
    using assms(3) by simp
  from findIndex_found [OF ne] assms(3) show i: "i < length (messages s)" by simp
  have "nat (int i + 1) = Suc i" by simp
  with assms i show "fst (handleEditSave_begin s) =
      s\<lparr>messages := take i (messages s) @ [(messages s ! i)\<lparr>msg_content := editContent s\<rparr>],
        editingMessageId := None, isLoading := True\<rparr>"
    by (simp add: handleEditSave_begin_def Let_def take_Suc_update)
  from assms show "snd (handleEditSave_begin s) \<noteq> None"
    by (simp add: handleEditSave_begin_def Let_def)
qed

lemma handleEditSave_begin_reject_iff:
  "snd (handleEditSave_begin s) = None \<longleftrightarrow>
     \<not> truthy (editingMessageId s) \<or> list_all isWhiteSpace (editContent s)
     \<or> (\<forall>m \<in> set (messages s). msg_id m \<noteq> the (editingMessageId s))"
  by (simp add: handleEditSave_begin_def Let_def trim_empty_iff findIndex_none)


lemma editingU2_fields:
  "editingMessageId editingU2 = Some (js ''u2'')" "editContent editingU2 = js ''new text''"
  "messages editingU2 = [exU1, exM1, exU2, exM2]"
  by (simp_all add: editingU2_def setEditContent_def handleEditClick_def exampleState_def exU2_def)

text \<open>
  C1. When \<open>handleEditSave\<close> passes its guards and \<open>findIndex\<close> gives index \<open>i\<close>, the
  message sequence set before the completion call is awaited is the first \<open>i\<close> messages,
  unchanged, followed by the message of index \<open>i\<close> with its content replaced by the new
  text: its length is \<open>i + 1\<close>, the last message keeps its id, attachments and timestamp,
  and every later message is gone.
\<close>

theorem C1_edit_truncates_at_index:
  assumes "truthy (editingMessageId s)" and "trim (editContent s) \<noteq> []"
    and "findIndex (\<lambda>m. msg_id m = the (editingMessageId s)) (messages s) = int i"
  shows "i < length (messages s)
    \<and> messages (fst (handleEditSave_begin s))
        = take i (messages s) @ [(messages s ! i)\<lparr>msg_content := editContent s\<rparr>]
    \<and> length (messages (fst (handleEditSave_begin s))) = i + 1
    \<and> take i (messages (fst (handleEditSave_begin s))) = take i (messages s)
    \<and> last (messages (fst (handleEditSave_begin s)))
        = (messages s ! i)\<lparr>msg_content := editContent s\<rparr>
    \<and> msg_content (last (messages (fst (handleEditSave_begin s)))) = editContent s
    \<and> msg_id (last (messages (fst (handleEditSave_begin s)))) = msg_id (messages s ! i)
    \<and> msg_attachments (last (messages (fst (handleEditSave_begin s))))
        = msg_attachments (messages s ! i)
    \<and> msg_timestamp (last (messages (fst (handleEditSave_begin s))))
        = msg_timestamp (messages s ! i)"
proof -
  note acc = handleEditSave_begin_accept [OF assms]
  have ms: "messages (fst (handleEditSave_begin s))
        = take i (messages s) @ [(messages s ! i)\<lparr>msg_content := editContent s\<rparr>]"
    by (simp add: acc(2))
  from acc(1) have len: "length (take i (messages s)) = i" by simp
  show ?thesis unfolding ms using acc(1) by (simp add: len)
qed

theorem C1_edit_truncates_at_index_witness:
  "truthy (editingMessageId editingU2) \<and> trim (editContent editingU2) \<noteq> []
   \<and> findIndex (\<lambda>m. msg_id m = the (editingMessageId editingU2)) (messages editingU2) = int 2
   \<and> messages (fst (handleEditSave_begin editingU2))
       = [exU1, exM1, exU2\<lparr>msg_content := js ''new text''\<rparr>]"
proof -
  have h1: "truthy (editingMessageId editingU2)"
    by (simp add: editingU2_fields truthy_def js_def)
  have h2: "trim (editContent editingU2) \<noteq> []"
    by (simp add: editingU2_fields trim_def js_def isWhiteSpace_def)
  have h3: "findIndex (\<lambda>m. msg_id m = the (editingMessageId editingU2)) (messages editingU2) = int 2"
    by (simp add: editingU2_fields exU1_def exM1_def exU2_def exM2_def js_def)
  from C1_edit_truncates_at_index [OF h1 h2 h3]
  have "messages (fst (handleEditSave_begin editingU2))
        = take 2 (messages editingU2) @ [(messages editingU2 ! 2)\<lparr>msg_content := editContent editingU2\<rparr>]"
    by blast
  then have "messages (fst (handleEditSave_begin editingU2))
       = [exU1, exM1, exU2\<lparr>msg_content := js ''new text''\<rparr>]"
    by (simp add: editingU2_fields)
  with h1 h2 h3 show ?thesis by blast
qed

section \<open>Sending a message\<close>

lemma handleSend_begin_reject:
  "(list_all isWhiteSpace (case manualInput of Some text \<Rightarrow> text | None \<Rightarrow> input s)
      \<and> attachments s = []) \<or> isLoading s
   \<Longrightarrow> handleSend_begin env manualInput s ls = (s, ls, None)"
  by (auto simp: handleSend_begin_def Let_def trim_empty_iff)


text \<open>
  C7. A send whose text is empty or only white space, with no staged attachment, changes
  neither the state nor the storage and prepares no completion call.
\<close>

theorem C7_empty_send_is_noop:
  assumes "list_all isWhiteSpace (case manualInput of Some text \<Rightarrow> text | None \<Rightarrow> input s)"
    and "attachments s = []"
  shows "handleSend_begin env manualInput s ls = (s, ls, None)
    \<and> handleSend apiKey generateContent env renv manualInput s ls = (s, ls)"
proof -
  from assms have "handleSend_begin env manualInput s ls = (s, ls, None)"
    by (simp add: handleSend_begin_reject)
  then show ?thesis by (simp add: handleSend_def)
qed

theorem C7_empty_send_is_noop_witness:
  "handleSend_begin exampleSendEnv (Some (js '' '')) exampleState exampleStorage
     = (exampleState, exampleStorage, None)
   \<and> handleSend None transportFails exampleSendEnv exampleReplyEnv (Some (js '' ''))
       exampleState exampleStorage = (exampleState, exampleStorage)"
proof -
  have h1: "list_all isWhiteSpace (case Some (js '' '') of Some text \<Rightarrow> text | None \<Rightarrow> input exampleState)"
    by (simp add: js_def isWhiteSpace_def)
  have h2: "attachments exampleState = []"
    by (simp add: exampleState_def)
  from C7_empty_send_is_noop [OF h1 h2] show ?thesis by blast
qed

text \<open>
  A send while a completion call is awaited is rejected by the guard of \<open>handleSend\<close>.
\<close>

lemma handleSend_rejected_while_loading:
  "isLoading s \<Longrightarrow> handleSend_begin env manualInput s ls = (s, ls, None)"
  by (simp add: handleSend_begin_reject)

text \<open>
  C2 fails for edits. \<open>handleEditSave\<close> has no \<open>isLoading\<close> guard: while a completion
  call is awaited, an edit with a known id and a non-blank text is accepted and prepares a
  second completion call, and \<open>isLoading\<close> stays set.
\<close>

theorem C2_edit_accepted_while_awaiting:
  assumes "isLoading s" and "truthy (editingMessageId s)"
    and "\<not> list_all isWhiteSpace (editContent s)"
    and "\<exists>m \<in> set (messages s). msg_id m = the (editingMessageId s)"
  shows "snd (handleEditSave_begin s) \<noteq> None
    \<and> handleEditSave_begin s \<noteq> (s, None)
    \<and> isLoading (fst (handleEditSave_begin s))"
proof -
  from assms(2-4) have accepted: "snd (handleEditSave_begin s) \<noteq> None"
    by (auto simp: handleEditSave_begin_reject_iff)
  then have changed: "handleEditSave_begin s \<noteq> (s, None)"
    by auto
  from assms(2-4) have "isLoading (fst (handleEditSave_begin s))"
    by (auto simp: handleEditSave_begin_def Let_def trim_empty_iff findIndex_none)
  with accepted changed show ?thesis by blast
qed

text \<open>
  Such a state is reached through the handlers: the edit box of \<open>U2\<close> is opened while
  idle (the button is shown), a send is accepted and its completion call is awaited, then
  the edit is saved. The sequence is truncated and a second call is prepared while the
  first is still awaited.
\<close>

theorem C2_edit_accepted_while_awaiting_witness:
  "editButtonShown exampleState exU2
   \<and> isLoading (fst (handleSend_begin exampleSendEnv (Some (js ''hello'')) editingU2 exampleStorage))
   \<and> saveButtonShown
        (fst (handleSend_begin exampleSendEnv (Some (js ''hello'')) editingU2 exampleStorage)) exU2
   \<and> snd (snd (handleSend_begin exampleSendEnv (Some (js ''hello'')) editingU2 exampleStorage)) \<noteq> None
   \<and> snd (handleEditSave_begin
        (fst (handleSend_begin exampleSendEnv (Some (js ''hello'')) editingU2 exampleStorage))) \<noteq> None
   \<and> messages (fst (handleEditSave_begin
        (fst (handleSend_begin exampleSendEnv (Some (js ''hello'')) editingU2 exampleStorage))))
      = [exU1, exM1, exU2\<lparr>msg_content := js ''new text''\<rparr>]"
proof -
  let ?s = "fst (handleSend_begin exampleSendEnv (Some (js ''hello'')) editingU2 exampleStorage)"
  have shown: "editButtonShown exampleState exU2"
    by (simp add: editButtonShown_def exampleState_def exU2_def)
  have idle: "\<not> isLoading editingU2" "currentSessionId editingU2 = Some (js ''s1'')"
    by (simp_all add: editingU2_def setEditContent_def handleEditClick_def exampleState_def)
  have nonblank: "trim (js ''hello'') \<noteq> []"
    by (simp add: trim_def js_def isWhiteSpace_def)
  have hello: "js ''hello'' \<noteq> []"
    by (simp add: js_def)
  have s1: "truthy (currentSessionId editingU2)"
    by (simp add: idle truthy_def js_def)
  have sent: "?s = editingU2\<lparr>messages := messages editingU2 @
        [\<lparr>msg_id = js ''u3'', msg_role = RoleUser, msg_content = js ''hello'',
          msg_attachments = Some (attachments editingU2), msg_isThinking = None,
          msg_timestamp = 5000\<rparr>], attachments := [], isLoading := True\<rparr>"
    and call1: "snd (snd (handleSend_begin exampleSendEnv (Some (js ''hello'')) editingU2 exampleStorage)) \<noteq> None"
    using idle(1) nonblank s1 hello
    by (simp_all add: handleSend_begin_def Let_def exampleSendEnv_def truthy_def)
  have loading: "isLoading ?s" by (simp add: sent)
  have save: "saveButtonShown ?s exU2"
    unfolding sent by (simp add: saveButtonShown_def editingU2_fields exU2_def)
  have h1: "truthy (editingMessageId ?s)"
    unfolding sent by (simp add: editingU2_fields truthy_def js_def)
  have h2: "trim (editContent ?s) \<noteq> []"
    unfolding sent by (simp add: editingU2_fields trim_def js_def isWhiteSpace_def)
  have h3: "findIndex (\<lambda>m. msg_id m = the (editingMessageId ?s)) (messages ?s) = int 2"
    unfolding sent by (simp add: editingU2_fields exU1_def exM1_def exU2_def exM2_def js_def)
  have h4: "\<exists>m \<in> set (messages ?s). msg_id m = the (editingMessageId ?s)"
    unfolding sent by (simp add: editingU2_fields exU2_def)
  from h2 have h2': "\<not> list_all isWhiteSpace (editContent ?s)"
    by (simp add: trim_empty_iff)
  from C2_edit_accepted_while_awaiting [OF loading h1 h2' h4]
  have call2: "snd (handleEditSave_begin ?s) \<noteq> None" by blast
  note acc = handleEditSave_begin_accept [OF h1 h2 h3]
  have "messages (fst (handleEditSave_begin ?s)) = [exU1, exM1, exU2\<lparr>msg_content := js ''new text''\<rparr>]"
    by (simp add: acc(2)) (simp add: sent editingU2_fields)
  with shown loading save call1 call2 show ?thesis by blast
qed

section \<open>More facts about the two handlers\<close>

lemma handleSend_begin_accept_iff:
  "snd (snd (handleSend_begin env manualInput s ls)) \<noteq> None \<longleftrightarrow>
     \<not> isLoading s \<and> (\<not> list_all isWhiteSpace (textToSend manualInput s) \<or> attachments s \<noteq> [])"
  by (auto simp: handleSend_begin_def Let_def textToSend_def trim_empty_iff createSession_def
      getSessions_def split: prod.splits sum.splits)

lemma handleSend_begin_call:
  assumes "\<not> isLoading s"
    and "\<not> list_all isWhiteSpace (textToSend manualInput s) \<or> attachments s \<noteq> []"
  shows "snd (snd (handleSend_begin env manualInput s ls))
      = Some \<lparr>call_history = filter (\<lambda>m. msg_id m \<noteq> js ''welcome'') (messages s),
              call_newMessage = textToSend manualInput s,
              call_attachments = attachments s,
              call_deepThink = deepThink s, call_analyzeMode = analyzeMode s,
              call_optimizeMode = optimizeMode s\<rparr>"
    and "messages (fst (handleSend_begin env manualInput s ls))
      = messages s @ [userMessage env manualInput s]"
    and "isLoading (fst (handleSend_begin env manualInput s ls))"
  using assms
  by (auto simp: handleSend_begin_def Let_def textToSend_def userMessage_def trim_empty_iff
      createSession_def getSessions_def split: prod.splits sum.splits)

lemma handleSend_begin_session:
  assumes "\<not> isLoading s"
    and "\<not> list_all isWhiteSpace (textToSend manualInput s) \<or> attachments s \<noteq> []"
  shows "\<not> truthy (currentSessionId s) \<Longrightarrow> currentUser s = Some u \<Longrightarrow>
      currentSessionId (fst (handleSend_begin env manualInput s ls)) = Some (newSessionId env)
      \<and> fst (snd (handleSend_begin env manualInput s ls))
        = saveLocalSessions ls (getLocalSessions ls @
            [\<lparr>cs_id = newSessionId env, cs_userId = user_id u,
              cs_title = deriveTitle (textToSend manualInput s),
              cs_messages = [tempMsg env manualInput s],
              cs_lastUpdated = newSessionTime env\<rparr>])"
    and "truthy (currentSessionId s) \<or> currentUser s = None \<Longrightarrow>
      currentSessionId (fst (handleSend_begin env manualInput s ls)) = currentSessionId s
      \<and> fst (snd (handleSend_begin env manualInput s ls)) = ls"
  using assms
  by (auto simp: handleSend_begin_def Let_def textToSend_def tempMsg_def trim_empty_iff
      createSession_def getSessions_def split: prod.splits sum.splits)

lemma handleSend_keeps_session:
  "currentSessionId (fst (handleSend apiKey generateContent env renv manualInput s ls))
     = currentSessionId (fst (handleSend_begin env manualInput s ls))"
  "snd (handleSend apiKey generateContent env renv manualInput s ls)
     = fst (snd (handleSend_begin env manualInput s ls))"
proof -
  obtain s' ls' c where b: "handleSend_begin env manualInput s ls = (s', ls', c)"
    by (metis prod.collapse)
  have settle: "currentSessionId (handleSend_settle renv r s') = currentSessionId s'" for r
    by (cases r) (simp_all add: handleSend_settle_def)
  show "currentSessionId (fst (handleSend apiKey generateContent env renv manualInput s ls))
     = currentSessionId (fst (handleSend_begin env manualInput s ls))"
    by (cases c) (simp_all add: handleSend_def b settle)
  show "snd (handleSend apiKey generateContent env renv manualInput s ls)
     = fst (snd (handleSend_begin env manualInput s ls))"
    by (cases c) (simp_all add: handleSend_def b)
qed

lemma runCall_no_key:
  "\<not> truthy apiKey \<Longrightarrow>
     runCall apiKey generateContent call
       = Inl (Error (js ''API_KEY not found in environment variables''))"
  by (simp add: runCall_def sendMessageToGemini_def)

lemma handleSend_failure:
  assumes "snd (snd (handleSend_begin env manualInput s ls)) = Some call"
    and "runCall apiKey generateContent call = Inl e"
  shows "fst (handleSend apiKey generateContent env renv manualInput s ls)
      = (fst (handleSend_begin env manualInput s ls))
          \<lparr>messages := messages (fst (handleSend_begin env manualInput s ls))
             @ [sendErrorMessage renv], isLoading := False\<rparr>"
proof -
  obtain s' ls' where b: "handleSend_begin env manualInput s ls = (s', ls', Some call)"
    using assms(1) by (metis prod.collapse)
  show ?thesis
    by (simp add: handleSend_def b assms(2) handleSend_settle_def sendErrorMessage_def)
qed

lemma handleSend_begin_state:
  assumes "\<not> isLoading s"
    and "\<not> list_all isWhiteSpace (textToSend manualInput s) \<or> attachments s \<noteq> []"
    and "truthy (currentSessionId s) \<or> currentUser s = None"
  shows "fst (handleSend_begin env manualInput s ls)
      = s\<lparr>messages := messages s @ [userMessage env manualInput s],
          input := (if truthy manualInput then input s else []),
          attachments := [], isLoading := True\<rparr>"
  using assms
  by (auto simp: handleSend_begin_def Let_def textToSend_def userMessage_def trim_empty_iff)

lemma handleSend_state:
  assumes "\<not> isLoading s"
    and "\<not> list_all isWhiteSpace (textToSend manualInput s) \<or> attachments s \<noteq> []"
    and "truthy (currentSessionId s) \<or> currentUser s = None"
  shows "runCall apiKey generateContent (the (snd (snd (handleSend_begin env manualInput s ls))))
        = Inl e \<Longrightarrow>
      fst (handleSend apiKey generateContent env renv manualInput s ls)
      = s\<lparr>messages := messages s @ [userMessage env manualInput s, sendErrorMessage renv],
          input := (if truthy manualInput then input s else []),
          attachments := [], isLoading := False\<rparr>"
    and "runCall apiKey generateContent (the (snd (snd (handleSend_begin env manualInput s ls))))
        = Inr responseText \<Longrightarrow>
      fst (handleSend apiKey generateContent env renv manualInput s ls)
      = s\<lparr>messages := messages s @ [userMessage env manualInput s,
            \<lparr>msg_id = replyId renv, msg_role = RoleModel, msg_content = responseText,
              msg_attachments = None, msg_isThinking = None, msg_timestamp = replyTime renv\<rparr>],
          input := (if truthy manualInput then input s else []),
          attachments := [], isLoading := False\<rparr>"
proof -
  note st = handleSend_begin_state [OF assms, of env ls]
  note call = handleSend_begin_call(1) [OF assms(1,2), of env ls]
  obtain s' ls' c where b: "handleSend_begin env manualInput s ls = (s', ls', Some c)"
    using call by (metis prod.collapse)
  from st b have s': "s' = s\<lparr>messages := messages s @ [userMessage env manualInput s],
          input := (if truthy manualInput then input s else []),
          attachments := [], isLoading := True\<rparr>"
    by simp
  show "fst (handleSend apiKey generateContent env renv manualInput s ls)
      = s\<lparr>messages := messages s @ [userMessage env manualInput s, sendErrorMessage renv],
          input := (if truthy manualInput then input s else []),
          attachments := [], isLoading := False\<rparr>"
    if "runCall apiKey generateContent (the (snd (snd (handleSend_begin env manualInput s ls))))
        = Inl e"
    using that by (simp add: handleSend_def b handleSend_settle_def sendErrorMessage_def s')
  show "fst (handleSend apiKey generateContent env renv manualInput s ls)
      = s\<lparr>messages := messages s @ [userMessage env manualInput s,
            \<lparr>msg_id = replyId renv, msg_role = RoleModel, msg_content = responseText,
              msg_attachments = None, msg_isThinking = None, msg_timestamp = replyTime renv\<rparr>],
          input := (if truthy manualInput then input s else []),
          attachments := [], isLoading := False\<rparr>"
    if "runCall apiKey generateContent (the (snd (snd (handleSend_begin env manualInput s ls))))
        = Inr responseText"
    using that by (simp add: handleSend_def b handleSend_settle_def s')
qed

lemma handleEditSave_begin_call:
  assumes "truthy (editingMessageId s)" and "trim (editContent s) \<noteq> []"
    and "findIndex (\<lambda>m. msg_id m = the (editingMessageId s)) (messages s) = int i"
  shows "snd (handleEditSave_begin s)
      = Some \<lparr>call_history = filter (\<lambda>m. msg_id m \<noteq> js ''welcome'') (take i (messages s)),
              call_newMessage = editContent s,
              call_attachments =
                (case msg_attachments (messages s ! i) of None \<Rightarrow> [] | Some atts \<Rightarrow> atts),
              call_deepThink = deepThink s, call_analyzeMode = analyzeMode s,
              call_optimizeMode = optimizeMode s\<rparr>"
proof -
  have ne: "findIndex (\<lambda>m. msg_id m = the (editingMessageId s)) (messages s) \<noteq> - 1"
    using assms(3) by simp
  from findIndex_found [OF ne] assms(3) have i: "i < length (messages s)" by simp
  have "nat (int i + 1) = Suc i" by simp
  with assms i show ?thesis
    by (simp add: handleEditSave_begin_def Let_def take_Suc_update)
qed

lemma handleEditSave_failure:
  assumes "truthy (editingMessageId s)" and "trim (editContent s) \<noteq> []"
    and "findIndex (\<lambda>m. msg_id m = the (editingMessageId s)) (messages s) = int i"
    and "runCall apiKey generateContent (the (snd (handleEditSave_begin s))) = Inl e"
  shows "handleEditSave apiKey generateContent renv s
      = s\<lparr>messages := take i (messages s)
            @ [(messages s ! i)\<lparr>msg_content := editContent s\<rparr>, editErrorMessage renv],
          editingMessageId := None, isLoading := False\<rparr>"
proof -
  note st = handleEditSave_begin_accept(2) [OF assms(1-3)]
  note call = handleEditSave_begin_call [OF assms(1-3)]
  obtain s' c where b: "handleEditSave_begin s = (s', Some c)"
    using call by (metis prod.collapse)
  from st b have s': "s' = s\<lparr>messages := take i (messages s)
      @ [(messages s ! i)\<lparr>msg_content := editContent s\<rparr>],
      editingMessageId := None, isLoading := True\<rparr>"
    by simp
  from assms(4) show ?thesis
    by (simp add: handleEditSave_def b handleEditSave_settle_def editErrorMessage_def s')
qed

section \<open>Facts about the example conversation\<close>

lemma not_blank: "\<not> list_all isWhiteSpace (js ''hello'')" "\<not> list_all isWhiteSpace (js ''again'')"
  "\<not> list_all isWhiteSpace (js ''new text'')"
  by (simp_all add: js_def isWhiteSpace_def)

lemma typedHi_fields:
  "currentSessionId typedHi = None" "currentUser typedHi = getCurrentUser"
  "messages typedHi = []" "\<not> isLoading typedHi" "attachments typedHi = []"
  "textToSend None typedHi = js ''hi''"
  by (simp_all add: typedHi_def setInput_def freshChat_def startNewChat_def Let_def
      exampleState_def textToSend_def)

lemma hi_not_blank: "\<not> list_all isWhiteSpace (js ''hi'')"
  by (simp add: js_def isWhiteSpace_def)

lemma example_titles:
  "map cs_title (getLocalSessions (saveLocalSessions exampleStorage
      (getLocalSessions exampleStorage @ [session])))
     = [js ''How do I tween a part?'', cs_title session]"
  by (simp add: getLocalSessions_save)
     (simp add: exampleStorage_def getLocalSessions_def readItem_def exampleSession_def)

lemma exampleState_session: "truthy (currentSessionId exampleState)"
  by (simp add: exampleState_def truthy_def js_def)

lemma afterFailure_fields:
  "messages afterFailure = [exU1, exM1, exU2, exM2, exU3, sendErrorMessage exampleReplyEnv]"
  "\<not> isLoading afterFailure" "editingMessageId afterFailure = None"
  "attachments afterFailure = []" "truthy (currentSessionId afterFailure)"
proof -
  have idle: "\<not> isLoading exampleState" by (simp add: exampleState_def)
  have sendable: "\<not> list_all isWhiteSpace (textToSend (Some (js ''hello'')) exampleState)
      \<or> attachments exampleState \<noteq> []"
    by (simp add: textToSend_def not_blank)
  have session: "truthy (currentSessionId exampleState) \<or> currentUser exampleState = None"
    by (simp add: exampleState_session)
  have failed: "runCall None transportFails (the (snd (snd (handleSend_begin exampleSendEnv
      (Some (js ''hello'')) exampleState exampleStorage))))
      = Inl (Error (js ''API_KEY not found in environment variables''))"
    by (simp add: runCall_no_key truthy_def)
  note st = handleSend_state(1) [OF idle sendable session failed, of exampleReplyEnv]
  have eq: "afterFailure = exampleState\<lparr>messages := messages exampleState
      @ [exU3, sendErrorMessage exampleReplyEnv],
      input := (if truthy (Some (js ''hello'')) then input exampleState else []),
      attachments := [], isLoading := False\<rparr>"
    unfolding afterFailure_def exU3_def by (rule st)
  show "messages afterFailure = [exU1, exM1, exU2, exM2, exU3, sendErrorMessage exampleReplyEnv]"
    "\<not> isLoading afterFailure" "editingMessageId afterFailure = None"
    "attachments afterFailure = []"
    unfolding eq by (simp_all add: exampleState_def)
  show "truthy (currentSessionId afterFailure)"
    unfolding eq using exampleState_session by simp
qed

lemma afterRetry_fields:
  "messages afterRetry = [exU1, exM1, exU2, exM2, exU3, sendErrorMessage exampleReplyEnv, exU4,
      \<lparr>msg_id = js ''m4'', msg_role = RoleModel, msg_content = js ''ok'',
        msg_attachments = None, msg_isThinking = None, msg_timestamp = 8000\<rparr>]"
  "\<not> isLoading afterRetry" "editingMessageId afterRetry = None"
proof -
  have idle: "\<not> isLoading afterFailure" by (rule afterFailure_fields)
  have sendable: "\<not> list_all isWhiteSpace (textToSend (Some (js ''again'')) afterFailure)
      \<or> attachments afterFailure \<noteq> []"
    by (simp add: textToSend_def not_blank)
  have session: "truthy (currentSessionId afterFailure) \<or> currentUser afterFailure = None"
    by (simp add: afterFailure_fields)
  have key: "truthy (Some (js ''key''))" by (simp add: truthy_def js_def)
  have answered: "runCall (Some (js ''key'')) answers (the (snd (snd (handleSend_begin
      exampleSendEnv2 (Some (js ''again'')) afterFailure exampleStorage)))) = Inr (js ''ok'')"
  proof -
    have ok: "js ''ok'' \<noteq> []" by (simp add: js_def)
    with key show ?thesis
      by (simp add: runCall_def sendMessageToGemini_def answers_def truthy_def)
  qed
  note st = handleSend_state(2) [OF idle sendable session answered, of exampleReplyEnv2]
  have eq: "afterRetry = afterFailure\<lparr>messages := messages afterFailure @ [exU4,
        \<lparr>msg_id = replyId exampleReplyEnv2, msg_role = RoleModel, msg_content = js ''ok'',
          msg_attachments = None, msg_isThinking = None,
          msg_timestamp = replyTime exampleReplyEnv2\<rparr>],
      input := (if truthy (Some (js ''again'')) then input afterFailure else []),
      attachments := [], isLoading := False\<rparr>"
    unfolding afterRetry_def exU4_def by (rule st)
  show "messages afterRetry = [exU1, exM1, exU2, exM2, exU3, sendErrorMessage exampleReplyEnv,
      exU4, \<lparr>msg_id = js ''m4'', msg_role = RoleModel, msg_content = js ''ok'',
        msg_attachments = None, msg_isThinking = None, msg_timestamp = 8000\<rparr>]"
    "\<not> isLoading afterRetry" "editingMessageId afterRetry = None"
    unfolding eq by (simp_all add: afterFailure_fields exampleReplyEnv2_def)
qed

lemma example_ids:
  "msg_id exU1 = js ''u1''" "msg_id exM1 = js ''m1''" "msg_id exU2 = js ''u2''"
  "msg_id exM2 = js ''m2''" "msg_id exU3 = js ''u3''" "msg_id exU4 = js ''u4''"
  "msg_id (sendErrorMessage exampleReplyEnv) = js ''m3''"
  "msg_role exU2 = RoleUser" "msg_role exU4 = RoleUser"
  by (simp_all add: exU1_def exM1_def exU2_def exM2_def exU3_def exU4_def userMessage_def
      sendErrorMessage_def exampleSendEnv_def exampleSendEnv2_def exampleReplyEnv_def)

lemma afterEditFailure_fields:
  "messages afterEditFailure
     = [exU1, exM1, exU2\<lparr>msg_content := js ''new text''\<rparr>, editErrorMessage exampleReplyEnv]"
  "\<not> isLoading afterEditFailure" "attachments afterEditFailure = []"
proof -
  have h1: "truthy (editingMessageId editingU2)"
    by (simp add: editingU2_fields truthy_def js_def)
  have h2: "trim (editContent editingU2) \<noteq> []"
    by (simp add: editingU2_fields trim_empty_iff not_blank)
  have h3: "findIndex (\<lambda>m. msg_id m = the (editingMessageId editingU2)) (messages editingU2) = int 2"
    by (simp add: editingU2_fields exU1_def exM1_def exU2_def exM2_def js_def)
  have failed: "runCall None transportFails (the (snd (handleEditSave_begin editingU2)))
      = Inl (Error (js ''API_KEY not found in environment variables''))"
    by (simp add: runCall_no_key truthy_def)
  note eq = handleEditSave_failure [OF h1 h2 h3 failed, of exampleReplyEnv]
  show "messages afterEditFailure
     = [exU1, exM1, exU2\<lparr>msg_content := js ''new text''\<rparr>, editErrorMessage exampleReplyEnv]"
    unfolding afterEditFailure_def eq by (simp add: editingU2_fields)
  show "\<not> isLoading afterEditFailure" "attachments afterEditFailure = []"
    unfolding afterEditFailure_def eq
    by (simp_all add: editingU2_def setEditContent_def handleEditClick_def exampleState_def)
qed


section \<open>Which message an edit reaches\<close>









section \<open>Creation of the session\<close>

text \<open>
  C8, as the code has it. \<open>startNewChat\<close> empties the sequence and leaves no current
  session; it has no access to the storage. A send that the guard rejects (loading, or blank
  text with no attachment) changes nothing. The first send that the guard accepts, with no
  current session and the signed-in user, appends the user message, creates a session
  whose title is derived from the content of that message, stores it and makes it the
  current session. This is done on entry, while the completion call is still to be
  awaited, and the session stays whatever the outcome of the call. With a current session,
  or without a user, an accepted send creates none.
\<close>

theorem C8_session_created_by_first_send:
  "currentSessionId (startNewChat innerWidth s0) = None
   \<and> messages (startNewChat innerWidth s0) = []
   \<and> (isLoading s \<or> (list_all isWhiteSpace (textToSend manualInput s) \<and> attachments s = [])
      \<longrightarrow> handleSend_begin env manualInput s ls = (s, ls, None)
          \<and> handleSend apiKey generateContent env renv manualInput s ls = (s, ls))
   \<and> (\<not> isLoading s
      \<and> (\<not> list_all isWhiteSpace (textToSend manualInput s) \<or> attachments s \<noteq> [])
      \<and> \<not> truthy (currentSessionId s) \<and> currentUser s = Some u
      \<longrightarrow> snd (snd (handleSend_begin env manualInput s ls)) \<noteq> None
          \<and> isLoading (fst (handleSend_begin env manualInput s ls))
          \<and> messages (fst (handleSend_begin env manualInput s ls))
              = messages s @ [userMessage env manualInput s]
          \<and> currentSessionId (fst (handleSend_begin env manualInput s ls))
              = Some (newSessionId env)
          \<and> fst (snd (handleSend_begin env manualInput s ls))
              = saveLocalSessions ls (getLocalSessions ls @
                  [\<lparr>cs_id = newSessionId env, cs_userId = user_id u,
                    cs_title = deriveTitle (msg_content (userMessage env manualInput s)),
                    cs_messages = [tempMsg env manualInput s],
                    cs_lastUpdated = newSessionTime env\<rparr>])
          \<and> currentSessionId (fst (handleSend apiKey generateContent env renv manualInput s ls))
              = Some (newSessionId env)
          \<and> snd (handleSend apiKey generateContent env renv manualInput s ls)
              = fst (snd (handleSend_begin env manualInput s ls)))
   \<and> (\<not> isLoading s
      \<and> (\<not> list_all isWhiteSpace (textToSend manualInput s) \<or> attachments s \<noteq> [])
      \<and> (truthy (currentSessionId s) \<or> currentUser s = None)
      \<longrightarrow> currentSessionId (fst (handleSend_begin env manualInput s ls)) = currentSessionId s
          \<and> fst (snd (handleSend_begin env manualInput s ls)) = ls)"
proof -
  have new_chat: "currentSessionId (startNewChat innerWidth s0) = None"
    "messages (startNewChat innerWidth s0) = []"
    by (simp_all add: startNewChat_def Let_def)
  have rejected: "handleSend_begin env manualInput s ls = (s, ls, None)
          \<and> handleSend apiKey generateContent env renv manualInput s ls = (s, ls)"
    if "isLoading s \<or> (list_all isWhiteSpace (textToSend manualInput s) \<and> attachments s = [])"
  proof -
    from that have "handleSend_begin env manualInput s ls = (s, ls, None)"
      by (auto simp: textToSend_def intro: handleSend_begin_reject)
    then show ?thesis by (simp add: handleSend_def)
  qed
  have created: "snd (snd (handleSend_begin env manualInput s ls)) \<noteq> None
          \<and> isLoading (fst (handleSend_begin env manualInput s ls))
          \<and> messages (fst (handleSend_begin env manualInput s ls))
              = messages s @ [userMessage env manualInput s]
          \<and> currentSessionId (fst (handleSend_begin env manualInput s ls))
              = Some (newSessionId env)
          \<and> fst (snd (handleSend_begin env manualInput s ls))
              = saveLocalSessions ls (getLocalSessions ls @
                  [\<lparr>cs_id = newSessionId env, cs_userId = user_id u,
                    cs_title = deriveTitle (msg_content (userMessage env manualInput s)),
                    cs_messages = [tempMsg env manualInput s],
                    cs_lastUpdated = newSessionTime env\<rparr>])
          \<and> currentSessionId (fst (handleSend apiKey generateContent env renv manualInput s ls))
              = Some (newSessionId env)
          \<and> snd (handleSend apiKey generateContent env renv manualInput s ls)
              = fst (snd (handleSend_begin env manualInput s ls))"
    if first: "\<not> isLoading s
      \<and> (\<not> list_all isWhiteSpace (textToSend manualInput s) \<or> attachments s \<noteq> [])
      \<and> \<not> truthy (currentSessionId s) \<and> currentUser s = Some u"
  proof -
    from first have idle: "\<not> isLoading s"
      and sendable: "\<not> list_all isWhiteSpace (textToSend manualInput s) \<or> attachments s \<noteq> []"
      and fresh: "\<not> truthy (currentSessionId s)" and owner: "currentUser s = Some u"
      by blast+
    have content: "msg_content (userMessage env manualInput s) = textToSend manualInput s"
      by (simp add: userMessage_def)
    note call = handleSend_begin_call [OF idle sendable]
    note session = handleSend_begin_session(1) [OF idle sendable fresh owner]
    show ?thesis
      unfolding handleSend_keeps_session content
      using call session by simp
  qed
  have kept: "currentSessionId (fst (handleSend_begin env manualInput s ls)) = currentSessionId s
          \<and> fst (snd (handleSend_begin env manualInput s ls)) = ls"
    if later: "\<not> isLoading s
      \<and> (\<not> list_all isWhiteSpace (textToSend manualInput s) \<or> attachments s \<noteq> [])
      \<and> (truthy (currentSessionId s) \<or> currentUser s = None)"
  proof -
    from later have idle: "\<not> isLoading s"
      and sendable: "\<not> list_all isWhiteSpace (textToSend manualInput s) \<or> attachments s \<noteq> []"
      and other: "truthy (currentSessionId s) \<or> currentUser s = None"
      by simp_all
    show ?thesis by (rule handleSend_begin_session(2) [OF idle sendable other])
  qed
  show ?thesis
    apply (intro conjI)
        apply (rule new_chat(1))
       apply (rule new_chat(2))
      apply (rule impI, erule rejected)
     apply (rule impI, erule created)
    apply (rule impI, erule kept)
    done
qed

text \<open>
  The session does not wait for the send to complete successfully: after \<open>hi\<close> is typed in a
  new chat and sent without a key, the session exists while the call is awaited, and when
  the call has failed the sequence ends with the error message and the session titled
  \<open>hi\<close> is stored and current.
\<close>

theorem C8_session_exists_after_failed_send:
  "\<not> truthy (currentSessionId typedHi)
   \<and> messages typedHi = []
   \<and> isLoading (fst (handleSend_begin exampleSendEnv None typedHi exampleStorage))
   \<and> currentSessionId (fst (handleSend_begin exampleSendEnv None typedHi exampleStorage))
       = Some (js ''s2'')
   \<and> messages (fst (handleSend None transportFails exampleSendEnv exampleReplyEnv None
         typedHi exampleStorage))
       = [userMessage exampleSendEnv None typedHi, sendErrorMessage exampleReplyEnv]
   \<and> currentSessionId (fst (handleSend None transportFails exampleSendEnv exampleReplyEnv None
         typedHi exampleStorage)) = Some (js ''s2'')
   \<and> map cs_title (getLocalSessions (snd (handleSend None transportFails exampleSendEnv
         exampleReplyEnv None typedHi exampleStorage)))
       = [js ''How do I tween a part?'', js ''hi'']"
proof -
  let ?b = "handleSend_begin exampleSendEnv None typedHi exampleStorage"
  let ?h = "handleSend None transportFails exampleSendEnv exampleReplyEnv None typedHi
    exampleStorage"
  have fresh: "\<not> truthy (currentSessionId typedHi)"
    by (simp add: typedHi_fields truthy_def)
  have idle: "\<not> isLoading typedHi" by (rule typedHi_fields)
  have sendable: "\<not> list_all isWhiteSpace (textToSend None typedHi) \<or> attachments typedHi \<noteq> []"
    by (simp add: typedHi_fields hi_not_blank)
  have owner: "currentUser typedHi = Some (the getCurrentUser)"
    by (simp add: typedHi_fields getCurrentUser_def)
  note call = handleSend_begin_call [OF idle sendable, of exampleSendEnv exampleStorage]
  note session = handleSend_begin_session(1) [OF idle sendable fresh owner,
      of exampleSendEnv exampleStorage]
  have sid: "currentSessionId (fst ?b) = Some (js ''s2'')"
    using session by (simp add: exampleSendEnv_def)
  have title: "deriveTitle (js ''hi'') = js ''hi''"
    by (simp add: deriveTitle_def js_def)
  have titles: "map cs_title (getLocalSessions (fst (snd ?b)))
      = [js ''How do I tween a part?'', js ''hi'']"
    using session by (simp add: example_titles typedHi_fields title)
  have failed: "runCall None transportFails (the (snd (snd ?b)))
      = Inl (Error (js ''API_KEY not found in environment variables''))"
    by (simp add: runCall_no_key truthy_def)
  have "fst ?h = (fst ?b)\<lparr>messages := messages (fst ?b) @ [sendErrorMessage exampleReplyEnv],
      isLoading := False\<rparr>"
    by (rule handleSend_failure [OF _ failed]) (simp add: call(1))
  then have msgs: "messages (fst ?h)
      = [userMessage exampleSendEnv None typedHi, sendErrorMessage exampleReplyEnv]"
    by (simp add: call(2) typedHi_fields)
  from fresh typedHi_fields(3) call(3) sid msgs titles show ?thesis
    by (simp add: handleSend_keeps_session)
qed

theorem C8_session_created_by_first_send_witness:
  "handleSend_begin exampleSendEnv None freshChat exampleStorage
     = (freshChat, exampleStorage, None)
   \<and> \<not> isLoading typedHi
   \<and> \<not> list_all isWhiteSpace (textToSend None typedHi)
   \<and> \<not> truthy (currentSessionId typedHi)
   \<and> currentUser typedHi = getCurrentUser
   \<and> snd (snd (handleSend_begin exampleSendEnv None typedHi exampleStorage)) \<noteq> None
   \<and> currentSessionId (fst (handleSend_begin exampleSendEnv None typedHi exampleStorage))
       = Some (js ''s2'')
   \<and> map cs_title (getLocalSessions (fst (snd
        (handleSend_begin exampleSendEnv None typedHi exampleStorage))))
       = [js ''How do I tween a part?'', js ''hi'']"
proof -
  let ?b = "handleSend_begin exampleSendEnv None typedHi exampleStorage"
  have blank: "isLoading freshChat
      \<or> (list_all isWhiteSpace (textToSend None freshChat) \<and> attachments freshChat = [])"
    by (simp add: freshChat_def startNewChat_def Let_def exampleState_def textToSend_def)
  from C8_session_created_by_first_send [where s = freshChat and manualInput = None
      and env = exampleSendEnv and ls = exampleStorage] blank
  have untouched: "handleSend_begin exampleSendEnv None freshChat exampleStorage
     = (freshChat, exampleStorage, None)"
    by blast
  have fresh: "\<not> truthy (currentSessionId typedHi)"
    by (simp add: typedHi_fields truthy_def)
  have idle: "\<not> isLoading typedHi" by (rule typedHi_fields)
  have sendable: "\<not> list_all isWhiteSpace (textToSend None typedHi)"
    by (simp add: typedHi_fields hi_not_blank)
  have owner: "currentUser typedHi = Some (the getCurrentUser)"
    by (simp add: typedHi_fields getCurrentUser_def)
  from C8_session_created_by_first_send [where s = typedHi and manualInput = None
      and env = exampleSendEnv and ls = exampleStorage and u = "the getCurrentUser"]
    idle sendable fresh owner
  have accepted: "snd (snd ?b) \<noteq> None"
    and sid: "currentSessionId (fst ?b) = Some (newSessionId exampleSendEnv)"
    and store: "fst (snd ?b) = saveLocalSessions exampleStorage (getLocalSessions exampleStorage @
        [\<lparr>cs_id = newSessionId exampleSendEnv, cs_userId = user_id (the getCurrentUser),
          cs_title = deriveTitle (msg_content (userMessage exampleSendEnv None typedHi)),
          cs_messages = [tempMsg exampleSendEnv None typedHi],
          cs_lastUpdated = newSessionTime exampleSendEnv\<rparr>])"
    by blast+
  have title: "deriveTitle (msg_content (userMessage exampleSendEnv None typedHi)) = js ''hi''"
    by (simp add: userMessage_def typedHi_fields deriveTitle_def js_def)
  have titles: "map cs_title (getLocalSessions (fst (snd ?b)))
      = [js ''How do I tween a part?'', js ''hi'']"
    unfolding store by (simp add: example_titles title)
  have sid2: "currentSessionId (fst ?b) = Some (js ''s2'')"
    unfolding sid by (simp add: exampleSendEnv_def)
  from untouched idle sendable fresh typedHi_fields(2) accepted sid2 titles show ?thesis
    by blast
qed

section \<open>Failure of the completion call\<close>

lemma persistEffect_settle:
  "persistEffect now (handleSend_settle renv result s) ls
     = (if currentUser s \<noteq> None \<and> truthy (currentSessionId s)
        then fst (updateSession ls now (the (currentSessionId s))
                    (messages (handleSend_settle renv result s)))
        else ls)"
  "persistEffect now (handleEditSave_settle renv result s) ls
     = (if currentUser s \<noteq> None \<and> truthy (currentSessionId s)
        then fst (updateSession ls now (the (currentSessionId s))
                    (messages (handleEditSave_settle renv result s)))
        else ls)"
  by (cases result; simp add: persistEffect_def handleSend_settle_def handleEditSave_settle_def)+

lemma message_in_later_prompts:
  assumes "msg_id m \<noteq> js ''welcome''" and "m \<in> set (messages t)"
  shows "\<not> isLoading t
      \<and> (\<not> list_all isWhiteSpace (textToSend manualInput t) \<or> attachments t \<noteq> [])
      \<longrightarrow> snd (snd (handleSend_begin env manualInput t ls)) \<noteq> None
          \<and> m \<in> set (call_history (the (snd (snd (handleSend_begin env manualInput t ls)))))
          \<and> m \<in> set (messages (fst (handleSend_begin env manualInput t ls)))"
    and "truthy (editingMessageId t) \<and> \<not> list_all isWhiteSpace (editContent t)
      \<and> findIndex (\<lambda>m. msg_id m = the (editingMessageId t)) (messages t) = int i
      \<longrightarrow> snd (handleEditSave_begin t) \<noteq> None
          \<and> (m \<in> set (call_history (the (snd (handleEditSave_begin t))))
                \<longleftrightarrow> m \<in> set (take i (messages t)))
          \<and> (m \<in> set (take i (messages t))
                \<longrightarrow> m \<in> set (messages (fst (handleEditSave_begin t))))"
    and "m \<in> set (messages (handleSend_settle renv result t))"
    and "m \<in> set (messages (handleEditSave_settle renv result t))"
proof -
  show "\<not> isLoading t
      \<and> (\<not> list_all isWhiteSpace (textToSend manualInput t) \<or> attachments t \<noteq> [])
      \<longrightarrow> snd (snd (handleSend_begin env manualInput t ls)) \<noteq> None
          \<and> m \<in> set (call_history (the (snd (snd (handleSend_begin env manualInput t ls)))))
          \<and> m \<in> set (messages (fst (handleSend_begin env manualInput t ls)))"
  proof
    assume h: "\<not> isLoading t
      \<and> (\<not> list_all isWhiteSpace (textToSend manualInput t) \<or> attachments t \<noteq> [])"
    then have idle: "\<not> isLoading t"
      and sendable: "\<not> list_all isWhiteSpace (textToSend manualInput t) \<or> attachments t \<noteq> []"
      by simp_all
    note call = handleSend_begin_call [OF idle sendable, of env ls]
    show "snd (snd (handleSend_begin env manualInput t ls)) \<noteq> None
          \<and> m \<in> set (call_history (the (snd (snd (handleSend_begin env manualInput t ls)))))
          \<and> m \<in> set (messages (fst (handleSend_begin env manualInput t ls)))"
      using assms by (simp add: call)
  qed
  show "truthy (editingMessageId t) \<and> \<not> list_all isWhiteSpace (editContent t)
      \<and> findIndex (\<lambda>m. msg_id m = the (editingMessageId t)) (messages t) = int i
      \<longrightarrow> snd (handleEditSave_begin t) \<noteq> None
          \<and> (m \<in> set (call_history (the (snd (handleEditSave_begin t))))
                \<longleftrightarrow> m \<in> set (take i (messages t)))
          \<and> (m \<in> set (take i (messages t))
                \<longrightarrow> m \<in> set (messages (fst (handleEditSave_begin t))))"
  proof
    assume h: "truthy (editingMessageId t) \<and> \<not> list_all isWhiteSpace (editContent t)
      \<and> findIndex (\<lambda>m. msg_id m = the (editingMessageId t)) (messages t) = int i"
    then have g: "truthy (editingMessageId t)" "trim (editContent t) \<noteq> []"
      "findIndex (\<lambda>m. msg_id m = the (editingMessageId t)) (messages t) = int i"
      by (simp_all add: trim_empty_iff)
    note call = handleEditSave_begin_call [OF g]
    note acc = handleEditSave_begin_accept(2) [OF g]
    show "snd (handleEditSave_begin t) \<noteq> None
          \<and> (m \<in> set (call_history (the (snd (handleEditSave_begin t))))
                \<longleftrightarrow> m \<in> set (take i (messages t)))
          \<and> (m \<in> set (take i (messages t))
                \<longrightarrow> m \<in> set (messages (fst (handleEditSave_begin t))))"
      using assms(1) by (simp add: call acc)
  qed
  show "m \<in> set (messages (handleSend_settle renv result t))"
    using assms(2) by (cases result) (simp_all add: handleSend_settle_def)
  show "m \<in> set (messages (handleEditSave_settle renv result t))"
    using assms(2) by (cases result) (simp_all add: handleEditSave_settle_def)
qed

text \<open>
  C3, as the code has it. A missing key makes the completion call fail. Whatever the
  failure is, \<open>handleSend\<close> appends one fixed model message and \<open>handleEditSave\<close> another,
  and clears \<open>isLoading\<close>. The persisting effect writes the messages of the resulting state
  for a failure exactly as for a response. As long as the error message is in the
  sequence and its generated id is not \<open>welcome\<close>, every accepted send passes it in its
  history and keeps it, every settled call keeps it, and an accepted edit passes it in its
  history exactly when it comes before the edited message, and then keeps it.
\<close>

theorem C3_failure_appends_error_message:
  "(\<not> truthy apiKey \<longrightarrow>
      runCall apiKey generateContent call
        = Inl (Error (js ''API_KEY not found in environment variables'')))
   \<and> handleSend_settle renv (Inl e) s
       = s\<lparr>messages := messages s @ [sendErrorMessage renv], isLoading := False\<rparr>
   \<and> handleEditSave_settle renv (Inl e) s
       = s\<lparr>messages := messages s @ [editErrorMessage renv], isLoading := False\<rparr>
   \<and> msg_role (sendErrorMessage renv) = RoleModel
   \<and> msg_role (editErrorMessage renv) = RoleModel
   \<and> persistEffect now (handleSend_settle renv result s) ls
       = (if currentUser s \<noteq> None \<and> truthy (currentSessionId s)
          then fst (updateSession ls now (the (currentSessionId s))
                      (messages (handleSend_settle renv result s)))
          else ls)
   \<and> persistEffect now (handleEditSave_settle renv result s) ls
       = (if currentUser s \<noteq> None \<and> truthy (currentSessionId s)
          then fst (updateSession ls now (the (currentSessionId s))
                      (messages (handleEditSave_settle renv result s)))
          else ls)
   \<and> ((m = sendErrorMessage renv \<or> m = editErrorMessage renv)
        \<and> replyId renv \<noteq> js ''welcome'' \<and> m \<in> set (messages t)
      \<longrightarrow> (\<not> isLoading t
            \<and> (\<not> list_all isWhiteSpace (textToSend manualInput t) \<or> attachments t \<noteq> [])
            \<longrightarrow> snd (snd (handleSend_begin env manualInput t ls')) \<noteq> None
                \<and> m \<in> set (call_history (the (snd (snd
                      (handleSend_begin env manualInput t ls')))))
                \<and> m \<in> set (messages (fst (handleSend_begin env manualInput t ls'))))
          \<and> (truthy (editingMessageId t) \<and> \<not> list_all isWhiteSpace (editContent t)
            \<and> findIndex (\<lambda>m. msg_id m = the (editingMessageId t)) (messages t) = int i
            \<longrightarrow> snd (handleEditSave_begin t) \<noteq> None
                \<and> (m \<in> set (call_history (the (snd (handleEditSave_begin t))))
                      \<longleftrightarrow> m \<in> set (take i (messages t)))
                \<and> (m \<in> set (take i (messages t))
                      \<longrightarrow> m \<in> set (messages (fst (handleEditSave_begin t)))))
          \<and> m \<in> set (messages (handleSend_settle renv' result' t))
          \<and> m \<in> set (messages (handleEditSave_settle renv' result' t)))"
proof -
  have thrown: "\<not> truthy apiKey \<longrightarrow>
      runCall apiKey generateContent call
        = Inl (Error (js ''API_KEY not found in environment variables''))"
    by (simp add: runCall_no_key)
  have send: "handleSend_settle renv (Inl e) s
       = s\<lparr>messages := messages s @ [sendErrorMessage renv], isLoading := False\<rparr>"
    by (simp add: handleSend_settle_def sendErrorMessage_def)
  have edit: "handleEditSave_settle renv (Inl e) s
       = s\<lparr>messages := messages s @ [editErrorMessage renv], isLoading := False\<rparr>"
    by (simp add: handleEditSave_settle_def editErrorMessage_def)
  have roles: "msg_role (sendErrorMessage renv) = RoleModel"
    "msg_role (editErrorMessage renv) = RoleModel"
    by (simp_all add: sendErrorMessage_def editErrorMessage_def)
  have later: "(\<not> isLoading t
            \<and> (\<not> list_all isWhiteSpace (textToSend manualInput t) \<or> attachments t \<noteq> [])
            \<longrightarrow> snd (snd (handleSend_begin env manualInput t ls')) \<noteq> None
                \<and> m \<in> set (call_history (the (snd (snd
                      (handleSend_begin env manualInput t ls')))))
                \<and> m \<in> set (messages (fst (handleSend_begin env manualInput t ls'))))
          \<and> (truthy (editingMessageId t) \<and> \<not> list_all isWhiteSpace (editContent t)
            \<and> findIndex (\<lambda>m. msg_id m = the (editingMessageId t)) (messages t) = int i
            \<longrightarrow> snd (handleEditSave_begin t) \<noteq> None
                \<and> (m \<in> set (call_history (the (snd (handleEditSave_begin t))))
                      \<longleftrightarrow> m \<in> set (take i (messages t)))
                \<and> (m \<in> set (take i (messages t))
                      \<longrightarrow> m \<in> set (messages (fst (handleEditSave_begin t)))))
          \<and> m \<in> set (messages (handleSend_settle renv' result' t))
          \<and> m \<in> set (messages (handleEditSave_settle renv' result' t))"
    if h: "(m = sendErrorMessage renv \<or> m = editErrorMessage renv)
        \<and> replyId renv \<noteq> js ''welcome'' \<and> m \<in> set (messages t)"
  proof -
    from h have "msg_id m = replyId renv"
      by (auto simp: sendErrorMessage_def editErrorMessage_def)
    with h have id: "msg_id m \<noteq> js ''welcome''" and present: "m \<in> set (messages t)"
      by simp_all
    note p = message_in_later_prompts [OF id present]
    show ?thesis
      by (intro conjI) (rule p)+
  qed
  show ?thesis
    apply (intro conjI)
           apply (rule thrown)
          apply (rule send)
         apply (rule edit)
        apply (rule roles(1))
       apply (rule roles(2))
      apply (rule persistEffect_settle(1))
     apply (rule persistEffect_settle(2))
    apply (rule impI, erule later)
    done
qed

text \<open>
  The wording does not tell a missing credential from a transport failure: the same send
  without a key, and with a key and a failing transport, ends with the same text. And a
  later prompt need not contain the error message: after the failed send, an edit of \<open>U2\<close>
  started from its button prepares a call whose history is \<open>[U1, M1]\<close>.
\<close>

theorem C3_same_wording_and_dropped_by_edit:
  "msg_content (last (messages (fst (handleSend None transportFails exampleSendEnv
       exampleReplyEnv (Some (js ''hello'')) exampleState exampleStorage))))
     = js ''I encountered a system error. Please check your API key.''
   \<and> msg_content (last (messages (fst (handleSend (Some (js ''key'')) transportFails
       exampleSendEnv exampleReplyEnv (Some (js ''hello'')) exampleState exampleStorage))))
     = js ''I encountered a system error. Please check your API key.''
   \<and> sendErrorMessage exampleReplyEnv \<in> set (messages afterFailure)
   \<and> clickEditButton exU2 afterFailure = Some (handleEditClick exU2 afterFailure)
   \<and> call_history (the (snd (handleEditSave_begin editingAfterFailure))) = [exU1, exM1]
   \<and> sendErrorMessage exampleReplyEnv \<notin> set [exU1, exM1]"
proof -
  let ?b = "handleSend_begin exampleSendEnv (Some (js ''hello'')) exampleState exampleStorage"
  let ?e = editingAfterFailure
  have idle: "\<not> isLoading exampleState" by (simp add: exampleState_def)
  have sendable: "\<not> list_all isWhiteSpace (textToSend (Some (js ''hello'')) exampleState)
      \<or> attachments exampleState \<noteq> []"
    by (simp add: textToSend_def not_blank)
  have session: "truthy (currentSessionId exampleState) \<or> currentUser exampleState = None"
    by (simp add: exampleState_session)
  have missing: "runCall None transportFails (the (snd (snd ?b)))
      = Inl (Error (js ''API_KEY not found in environment variables''))"
    by (simp add: runCall_no_key truthy_def)
  have transport: "runCall (Some (js ''key'')) transportFails (the (snd (snd ?b)))
      = Inl TransportError"
    by (simp add: runCall_def sendMessageToGemini_def truthy_def transportFails_def js_def)
  have wording: "msg_content (sendErrorMessage exampleReplyEnv)
      = js ''I encountered a system error. Please check your API key.''"
    by (simp add: sendErrorMessage_def)
  have no_key: "msg_content (last (messages (fst (handleSend None transportFails exampleSendEnv
       exampleReplyEnv (Some (js ''hello'')) exampleState exampleStorage))))
     = js ''I encountered a system error. Please check your API key.''"
    unfolding handleSend_state(1) [OF idle sendable session missing] by (simp add: wording)
  have with_key: "msg_content (last (messages (fst (handleSend (Some (js ''key'')) transportFails
       exampleSendEnv exampleReplyEnv (Some (js ''hello'')) exampleState exampleStorage))))
     = js ''I encountered a system error. Please check your API key.''"
    unfolding handleSend_state(1) [OF idle sendable session transport] by (simp add: wording)
  have present: "sendErrorMessage exampleReplyEnv \<in> set (messages afterFailure)"
    by (simp add: afterFailure_fields)
  have click: "clickEditButton exU2 afterFailure = Some (handleEditClick exU2 afterFailure)"
    by (simp add: clickEditButton_def editButtonShown_def afterFailure_fields example_ids)
  have f: "editingMessageId ?e = Some (js ''u2'')" "editContent ?e = js ''new text''"
    "messages ?e = [exU1, exM1, exU2, exM2, exU3, sendErrorMessage exampleReplyEnv]"
    by (simp_all add: editingAfterFailure_def setEditContent_def handleEditClick_def
        afterFailure_fields example_ids)
  have h1: "truthy (editingMessageId ?e)"
    by (simp add: f truthy_def js_def)
  have h2: "trim (editContent ?e) \<noteq> []"
    by (simp add: f trim_empty_iff not_blank)
  have h3: "findIndex (\<lambda>m. msg_id m = the (editingMessageId ?e)) (messages ?e) = int 2"
    by (simp add: f example_ids js_def)
  have history: "call_history (the (snd (handleEditSave_begin ?e))) = [exU1, exM1]"
    unfolding handleEditSave_begin_call [OF h1 h2 h3] by (simp add: f example_ids js_def)
  have dropped: "sendErrorMessage exampleReplyEnv \<notin> set [exU1, exM1]"
    by (simp add: sendErrorMessage_def exU1_def exM1_def exampleReplyEnv_def js_def)
  from no_key with_key present click history dropped show ?thesis by blast
qed

theorem C3_failure_appends_error_message_witness:
  "sendErrorMessage exampleReplyEnv \<in> set (messages afterFailure)
   \<and> sendErrorMessage exampleReplyEnv \<in> set (call_history (the (snd (snd
        (handleSend_begin exampleSendEnv2 (Some (js ''again'')) afterFailure exampleStorage)))))
   \<and> clickEditButton exU4 afterRetry = Some (handleEditClick exU4 afterRetry)
   \<and> sendErrorMessage exampleReplyEnv
        \<in> set (call_history (the (snd (handleEditSave_begin editingU4))))
   \<and> editErrorMessage exampleReplyEnv \<in> set (messages afterEditFailure)
   \<and> editErrorMessage exampleReplyEnv \<in> set (call_history (the (snd (snd
        (handleSend_begin exampleSendEnv2 (Some (js ''again'')) afterEditFailure
           exampleStorage)))))"
proof -
  have id: "replyId exampleReplyEnv \<noteq> js ''welcome''"
    by (simp add: exampleReplyEnv_def js_def)
  have present: "sendErrorMessage exampleReplyEnv \<in> set (messages afterFailure)"
    by (simp add: afterFailure_fields)
  have idle: "\<not> isLoading afterFailure" by (rule afterFailure_fields)
  have sendable: "\<not> list_all isWhiteSpace (textToSend (Some (js ''again'')) afterFailure)"
    by (simp add: textToSend_def not_blank)
  from C3_failure_appends_error_message [where renv = exampleReplyEnv
      and m = "sendErrorMessage exampleReplyEnv" and t = afterFailure
      and manualInput = "Some (js ''again'')" and env = exampleSendEnv2 and ls' = exampleStorage]
    id present idle sendable
  have next_send: "sendErrorMessage exampleReplyEnv \<in> set (call_history (the (snd (snd
        (handleSend_begin exampleSendEnv2 (Some (js ''again'')) afterFailure exampleStorage)))))"
    by blast
  have click: "clickEditButton exU4 afterRetry = Some (handleEditClick exU4 afterRetry)"
    by (simp add: clickEditButton_def editButtonShown_def afterRetry_fields example_ids)
  have f: "editingMessageId editingU4 = Some (js ''u4'')" "editContent editingU4 = js ''new text''"
    "messages editingU4 = messages afterRetry"
    by (simp_all add: editingU4_def setEditContent_def handleEditClick_def example_ids)
  have h1: "truthy (editingMessageId editingU4)"
    by (simp add: f truthy_def js_def)
  have h2: "\<not> list_all isWhiteSpace (editContent editingU4)"
    by (simp add: f not_blank)
  have h3: "findIndex (\<lambda>m. msg_id m = the (editingMessageId editingU4)) (messages editingU4)
      = int 6"
    by (simp add: f afterRetry_fields example_ids js_def)
  have still: "sendErrorMessage exampleReplyEnv \<in> set (messages editingU4)"
    by (simp add: f afterRetry_fields)
  have before: "sendErrorMessage exampleReplyEnv \<in> set (take 6 (messages editingU4))"
    by (simp add: f afterRetry_fields)
  from C3_failure_appends_error_message [where renv = exampleReplyEnv
      and m = "sendErrorMessage exampleReplyEnv" and t = editingU4 and i = 6]
    id still h1 h2 h3 before
  have next_edit: "sendErrorMessage exampleReplyEnv
        \<in> set (call_history (the (snd (handleEditSave_begin editingU4))))"
    by blast
  have present2: "editErrorMessage exampleReplyEnv \<in> set (messages afterEditFailure)"
    by (simp add: afterEditFailure_fields)
  have idle2: "\<not> isLoading afterEditFailure" by (rule afterEditFailure_fields)
  have sendable2: "\<not> list_all isWhiteSpace (textToSend (Some (js ''again'')) afterEditFailure)"
    by (simp add: textToSend_def not_blank)
  from C3_failure_appends_error_message [where renv = exampleReplyEnv
      and m = "editErrorMessage exampleReplyEnv" and t = afterEditFailure
      and manualInput = "Some (js ''again'')" and env = exampleSendEnv2 and ls' = exampleStorage]
    id present2 idle2 sendable2
  have next_send2: "editErrorMessage exampleReplyEnv \<in> set (call_history (the (snd (snd
        (handleSend_begin exampleSendEnv2 (Some (js ''again'')) afterEditFailure
           exampleStorage)))))"
    by blast
  from present next_send click next_edit present2 next_send2 show ?thesis by blast
qed

end
